theory Spec2Isabelle
  imports Main "HOL-Library.Word"
begin

unbundle bit_operations_syntax

section \<open>The catalog: data model\<close>

text \<open>
  The embedding follows \<^verbatim>\<open>src/catalog/catalog.cpp\<close>. The catalog owns a list of
  live databases (\<^verbatim>\<open>databases_\<close>) and talks to four system-catalog tables. The
  classes \<^verbatim>\<open>storage::Database\<close>, \<^verbatim>\<open>storage::DataTable\<close>,
  \<^verbatim>\<open>catalog::Schema\<close>, \<^verbatim>\<open>index::IndexMetadata\<close> and the four catalog-table
  wrappers are used by that file but defined elsewhere; their models below are marked.
  The transaction token and the memory pool are passed through by every call and decide
  nothing, so they are left out.
\<close>

type_synonym oid_t = "32 word"

text \<open>
  Modelled from the spec: the sentinel \<^verbatim>\<open>INVALID_OID\<close> is declared in a header that is
  missing ("oid 0 (or a reserved sentinel) means invalid/not found"). No general theorem
  below unfolds this definition, so each holds for any choice of the sentinel.
\<close>

definition INVALID_OID :: oid_t where
  "INVALID_OID = 0"

datatype ResultType = SUCCESS | FAILURE

datatype IndexType = BWTREE | HASH

datatype IndexConstraintType = DEFAULT | PRIMARY_KEY | UNIQUE

datatype ConstraintType = NOTNULL | PRIMARY

datatype TypeId = INTEGER | TINYINT | VARCHAR | VARBINARY | TIMESTAMP | DECIMAL

text \<open>
  What the source can do besides returning a result code: call a member function through
  a null pointer.
\<close>

datatype fault = NullDereference

text \<open>
  Modelled from the spec: \<^verbatim>\<open>catalog::Column\<close> ("attributes: name, type, byte size,
  inlined flag, ordinal offset, constraint set (e.g., NOT NULL, PRIMARY)"). A schema is
  the ordered sequence of its columns.
\<close>

record Column =
  column_name :: string
  column_offset :: nat
  column_type :: TypeId
  is_inlined :: bool
  column_constraints :: "ConstraintType list"

type_synonym Schema = "Column list"

definition IsPrimary :: "Column \<Rightarrow> bool" where
  "IsPrimary column = (PRIMARY \<in> set (column_constraints column))"

text \<open>
  Modelled from the spec: \<^verbatim>\<open>index::IndexMetadata\<close>, the descriptor an index is built
  from ("name, oid, owning table oid, owning database oid, structure kind, constraint
  kind, full schema, key sub-schema, key ordinal list, uniqueness flag"), in the order of
  the constructor's arguments in the source. The source keeps the key ordinals in a
  vector of \<^verbatim>\<open>oid_t\<close>; they are positions in a schema, and naturals here.
\<close>

record Index =
  index_GetName :: string
  index_GetOid :: oid_t
  index_GetTableOid :: oid_t
  index_GetDatabaseOid :: oid_t
  index_GetIndexType :: IndexType
  index_GetConstraintType :: IndexConstraintType
  index_tuple_schema :: Schema
  index_key_schema :: Schema
  index_key_attrs :: "nat list"
  index_unique_keys :: bool

text \<open>
  Modelled from the spec: \<^verbatim>\<open>storage::DataTable\<close> ("owns a Schema, an ordered sequence
  of Column descriptors, zero or more Indexes; identified by oid, name, and parent
  database oid") and \<^verbatim>\<open>storage::Database\<close> ("owns zero or more Tables; identified by
  oid and by name").
\<close>

record DataTable =
  table_GetOid :: oid_t
  table_GetName :: string
  table_GetDatabaseOid :: oid_t
  table_GetSchema :: Schema
  table_indexes :: "Index list"

record Database =
  database_GetOid :: oid_t
  database_GetDBName :: string
  database_tables :: "DataTable list"

subsection \<open>System-catalog tuples\<close>

record DatabaseTuple =
  dt_oid :: oid_t
  dt_name :: string

record TableTuple =
  tt_oid :: oid_t
  tt_name :: string
  tt_database_oid :: oid_t
  tt_database_name :: string

record ColumnTuple =
  ct_table_oid :: oid_t
  ct_name :: string
  ct_offset :: nat
  ct_type :: TypeId
  ct_inlined :: bool
  ct_constraints :: "ConstraintType list"

record IndexTuple =
  it_oid :: oid_t
  it_name :: string
  it_table_oid :: oid_t
  it_database_oid :: oid_t
  it_unique :: bool

text \<open>
  The catalog singleton. \<^verbatim>\<open>databases\<close> (the source's \<^verbatim>\<open>databases_\<close>) is the live
  object graph; the four
  \<^verbatim>\<open>pg_*\<close> fields are the contents of the system-catalog tables; \<^verbatim>\<open>next_oid\<close> is the
  oid generator ("a process-wide monotonically increasing unsigned integer" shared by
  all object kinds).
\<close>

record Catalog =
  databases :: "Database list"
  pg_database :: "DatabaseTuple list"
  pg_table :: "TableTuple list"
  pg_attribute :: "ColumnTuple list"
  pg_index :: "IndexTuple list"
  next_oid :: oid_t

section \<open>The system-catalog tables\<close>

text \<open>
  Modelled from the spec: the wrappers \<^verbatim>\<open>DatabaseCatalog\<close>, \<^verbatim>\<open>TableCatalog\<close>,
  \<^verbatim>\<open>ColumnCatalog\<close> and \<^verbatim>\<open>IndexCatalog\<close> are missing from the source. The spec
  gives each "insert/delete/lookup-by-name/lookup-by-oid operations over its fixed
  schema". A table is the list of its tuples in insertion order; an insert appends; a
  lookup answers from the first matching tuple and with \<^verbatim>\<open>INVALID_OID\<close> when there is
  none; a delete removes the matching tuples and, where the source reads its result,
  reports whether there was one.
\<close>

definition InsertDatabase :: "oid_t \<Rightarrow> string \<Rightarrow> DatabaseTuple list \<Rightarrow> DatabaseTuple list" where
  "InsertDatabase oid name rows = rows @ [\<lparr>dt_oid = oid, dt_name = name\<rparr>]"

definition GetDatabaseOid :: "string \<Rightarrow> DatabaseTuple list \<Rightarrow> oid_t" where
  "GetDatabaseOid name rows =
     (case find (\<lambda>t. dt_name t = name) rows of
        None \<Rightarrow> INVALID_OID
      | Some t \<Rightarrow> dt_oid t)"

definition DeleteDatabase :: "oid_t \<Rightarrow> DatabaseTuple list \<Rightarrow> bool \<times> DatabaseTuple list" where
  "DeleteDatabase oid rows =
     (find (\<lambda>t. dt_oid t = oid) rows \<noteq> None, filter (\<lambda>t. dt_oid t \<noteq> oid) rows)"

definition InsertTable :: "oid_t \<Rightarrow> string \<Rightarrow> oid_t \<Rightarrow> string \<Rightarrow> TableTuple list \<Rightarrow> TableTuple list" where
  "InsertTable oid name db_oid dbname rows =
     rows @ [\<lparr>tt_oid = oid, tt_name = name, tt_database_oid = db_oid, tt_database_name = dbname\<rparr>]"

definition GetTableOid :: "string \<Rightarrow> TableTuple list \<Rightarrow> oid_t" where
  "GetTableOid name rows =
     (case find (\<lambda>t. tt_name t = name) rows of
        None \<Rightarrow> INVALID_OID
      | Some t \<Rightarrow> tt_oid t)"

definition GetTableOids :: "oid_t \<Rightarrow> TableTuple list \<Rightarrow> oid_t list" where
  "GetTableOids db_oid rows = map tt_oid (filter (\<lambda>t. tt_database_oid t = db_oid) rows)"

definition DeleteTable :: "oid_t \<Rightarrow> TableTuple list \<Rightarrow> TableTuple list" where
  "DeleteTable oid rows = filter (\<lambda>t. tt_oid t \<noteq> oid) rows"

definition InsertColumn ::
  "oid_t \<Rightarrow> string \<Rightarrow> nat \<Rightarrow> TypeId \<Rightarrow> bool \<Rightarrow> ConstraintType list \<Rightarrow> ColumnTuple list \<Rightarrow> ColumnTuple list" where
  "InsertColumn oid name offset ty inlined cs rows =
     rows @ [\<lparr>ct_table_oid = oid, ct_name = name, ct_offset = offset, ct_type = ty,
              ct_inlined = inlined, ct_constraints = cs\<rparr>]"

definition DeleteColumn :: "oid_t \<Rightarrow> string \<Rightarrow> ColumnTuple list \<Rightarrow> ColumnTuple list" where
  "DeleteColumn oid name rows = filter (\<lambda>t. \<not> (ct_table_oid t = oid \<and> ct_name t = name)) rows"

definition IndexCatalog_Insert ::
  "oid_t \<Rightarrow> string \<Rightarrow> oid_t \<Rightarrow> oid_t \<Rightarrow> bool \<Rightarrow> IndexTuple list \<Rightarrow> IndexTuple list" where
  "IndexCatalog_Insert oid name tab_oid db_oid uniq rows =
     rows @ [\<lparr>it_oid = oid, it_name = name, it_table_oid = tab_oid, it_database_oid = db_oid,
              it_unique = uniq\<rparr>]"

definition GetTableidByOid :: "oid_t \<Rightarrow> IndexTuple list \<Rightarrow> oid_t" where
  "GetTableidByOid oid rows =
     (case find (\<lambda>t. it_oid t = oid) rows of
        None \<Rightarrow> INVALID_OID
      | Some t \<Rightarrow> it_table_oid t)"

definition IndexCatalog_DeleteByOid :: "oid_t \<Rightarrow> IndexTuple list \<Rightarrow> IndexTuple list" where
  "IndexCatalog_DeleteByOid oid rows = filter (\<lambda>t. it_oid t \<noteq> oid) rows"

text \<open>
  Modelled from the spec: the oid generator behind every \<^verbatim>\<open>GetNextOid()\<close> of the
  source; the spec has one counter for all object kinds. It hands out the current value
  and steps by one (wrapping at 32 bits).
\<close>

definition GetNextOid :: "Catalog \<Rightarrow> oid_t \<times> Catalog" where
  "GetNextOid s = (next_oid s, s\<lparr>next_oid := next_oid s + 1\<rparr>)"

section \<open>The live object graph\<close>

text \<open>
  The source holds databases, tables and indexes by pointer and changes them in place. A
  lookup returns the first object that matches, so a change made through the returned
  pointer is a change of the first matching element of the owning list.
\<close>

fun map_first :: "('a \<Rightarrow> bool) \<Rightarrow> ('a \<Rightarrow> 'a) \<Rightarrow> 'a list \<Rightarrow> 'a list" where
  "map_first P f [] = []"
| "map_first P f (x # xs) = (if P x then f x # xs else x # map_first P f xs)"

fun remove_first :: "('a \<Rightarrow> bool) \<Rightarrow> 'a list \<Rightarrow> 'a list" where
  "remove_first P [] = []"
| "remove_first P (x # xs) = (if P x then xs else x # remove_first P xs)"

text \<open>
  Modelled from the spec: the member functions of \<^verbatim>\<open>storage::DataTable\<close> and
  \<^verbatim>\<open>storage::Database\<close> that the catalog calls (attach an index, remove an index by
  oid, drop all indexes; register a table, find a table by name or oid, remove a table
  by oid).
\<close>

definition DataTable_AddIndex :: "Index \<Rightarrow> DataTable \<Rightarrow> DataTable" where
  "DataTable_AddIndex idx t = t\<lparr>table_indexes := table_indexes t @ [idx]\<rparr>"

definition DataTable_DropIndexWithOid :: "oid_t \<Rightarrow> DataTable \<Rightarrow> DataTable" where
  "DataTable_DropIndexWithOid oid t = t\<lparr>table_indexes := remove_first (\<lambda>i. index_GetOid i = oid) (table_indexes t)\<rparr>"

definition DataTable_DropIndexes :: "DataTable \<Rightarrow> DataTable" where
  "DataTable_DropIndexes t = t\<lparr>table_indexes := []\<rparr>"

definition Database_AddTable :: "DataTable \<Rightarrow> Database \<Rightarrow> Database" where
  "Database_AddTable t d = d\<lparr>database_tables := database_tables d @ [t]\<rparr>"

definition Database_GetTableWithName :: "string \<Rightarrow> Database \<Rightarrow> DataTable option" where
  "Database_GetTableWithName name d = find (\<lambda>t. table_GetName t = name) (database_tables d)"

definition Database_GetTableWithOid :: "oid_t \<Rightarrow> Database \<Rightarrow> DataTable option" where
  "Database_GetTableWithOid oid d = find (\<lambda>t. table_GetOid t = oid) (database_tables d)"

definition Database_DropTableWithOid :: "oid_t \<Rightarrow> Database \<Rightarrow> Database" where
  "Database_DropTableWithOid oid d = d\<lparr>database_tables := remove_first (\<lambda>t. table_GetOid t = oid) (database_tables d)\<rparr>"

text \<open>
  Modelled from the spec: \<^verbatim>\<open>Schema::CopySchema(schema, key_attrs)\<close> ("builds a key
  sub-schema from exactly those ordinals") and \<^verbatim>\<open>StringUtil::Upper\<close> ("upper-cased"),
  letter by letter on ASCII.
\<close>

definition CopySchema :: "Schema \<Rightarrow> nat list \<Rightarrow> Schema" where
  "CopySchema schema attrs = map (\<lambda>i. schema ! i) attrs"

definition upper_char :: "char \<Rightarrow> char" where
  "upper_char c =
     (let n = (of_char c :: nat) in if 97 \<le> n \<and> n \<le> 122 then char_of (n - 32) else c)"

definition Upper :: "string \<Rightarrow> string" where
  "Upper str = map upper_char str"

section \<open>Lookups of the catalog\<close>

definition GetDatabaseWithOid :: "oid_t \<Rightarrow> Catalog \<Rightarrow> Database option" where
  "GetDatabaseWithOid db_oid s = find (\<lambda>database. database_GetOid database = db_oid) (databases s)"

definition HasDatabase :: "oid_t \<Rightarrow> Catalog \<Rightarrow> bool" where
  "HasDatabase db_oid s = (GetDatabaseWithOid db_oid s \<noteq> None)"

definition GetDatabaseWithName :: "string \<Rightarrow> Catalog \<Rightarrow> Database option" where
  "GetDatabaseWithName database_name s =
     (let database_oid = GetDatabaseOid database_name (pg_database s)
      in GetDatabaseWithOid database_oid s)"

definition GetTableWithName :: "string \<Rightarrow> string \<Rightarrow> Catalog \<Rightarrow> DataTable option" where
  "GetTableWithName database_name table_name s =
     (case GetDatabaseWithName database_name s of
        Some database \<Rightarrow> Database_GetTableWithName table_name database
      | None \<Rightarrow> None)"

definition GetTableWithOid :: "oid_t \<Rightarrow> oid_t \<Rightarrow> Catalog \<Rightarrow> DataTable option" where
  "GetTableWithOid database_oid table_oid s =
     (case GetDatabaseWithOid database_oid s of
        Some database \<Rightarrow> Database_GetTableWithOid table_oid database
      | None \<Rightarrow> None)"

definition GetDatabaseCount :: "Catalog \<Rightarrow> nat" where
  "GetDatabaseCount s = length (databases s)"

section \<open>DDL operations of the catalog\<close>

text \<open>
  A pointer to a database is the first element of \<^verbatim>\<open>databases_\<close> with its oid; a
  pointer to a table is the first table of its database with the name (or the oid) it
  was looked up by.
\<close>

definition update_database :: "oid_t \<Rightarrow> (Database \<Rightarrow> Database) \<Rightarrow> Catalog \<Rightarrow> Catalog" where
  "update_database oid f s =
     s\<lparr>databases := map_first (\<lambda>d. database_GetOid d = oid) f (databases s)\<rparr>"

definition update_table_with_name :: "string \<Rightarrow> (DataTable \<Rightarrow> DataTable) \<Rightarrow> Database \<Rightarrow> Database" where
  "update_table_with_name name f d =
     d\<lparr>database_tables := map_first (\<lambda>t. table_GetName t = name) f (database_tables d)\<rparr>"

definition update_table_with_oid :: "oid_t \<Rightarrow> (DataTable \<Rightarrow> DataTable) \<Rightarrow> Database \<Rightarrow> Database" where
  "update_table_with_oid oid f d =
     d\<lparr>database_tables := map_first (\<lambda>t. table_GetOid t = oid) f (database_tables d)\<rparr>"

definition CreateDatabase :: "string \<Rightarrow> Catalog \<Rightarrow> ResultType \<times> Catalog" where
  "CreateDatabase database_name s =
     (let database_oid = GetDatabaseOid database_name (pg_database s) in
      if database_oid \<noteq> INVALID_OID then (FAILURE, s)
      else
        let (database_oid, s) = GetNextOid s;
            database = \<lparr>database_GetOid = database_oid, database_GetDBName = database_name,
                        database_tables = []\<rparr>;
            s = s\<lparr>databases := databases s @ [database]\<rparr>;
            s = s\<lparr>pg_database := InsertDatabase database_oid database_name (pg_database s)\<rparr>
        in (SUCCESS, s))"

text \<open>
  \<^verbatim>\<open>AddDatabase\<close> ORs the oid with \<^verbatim>\<open>type::CatalogType::DATABASE\<close>, an enum value of a
  missing header: it is the first argument here.
\<close>

definition AddDatabase :: "oid_t \<Rightarrow> Database \<Rightarrow> Catalog \<Rightarrow> Catalog" where
  "AddDatabase CatalogType_DATABASE database s =
     (let s = s\<lparr>databases := databases s @ [database]\<rparr>;
          database_name = []
      in s\<lparr>pg_database :=
             InsertDatabase (database_GetOid database OR CatalogType_DATABASE) database_name
               (pg_database s)\<rparr>)"

text \<open>The loop of \<^verbatim>\<open>CreatePrimaryIndex\<close> over the columns, with its counter.\<close>

fun find_primary_attrs :: "Schema \<Rightarrow> nat \<Rightarrow> nat list \<Rightarrow> nat list" where
  "find_primary_attrs [] column_idx key_attrs = key_attrs"
| "find_primary_attrs (column # schema_columns) column_idx key_attrs =
     find_primary_attrs schema_columns (column_idx + 1)
       (if IsPrimary column then key_attrs @ [column_idx] else key_attrs)"

definition CreatePrimaryIndex :: "string \<Rightarrow> string \<Rightarrow> Catalog \<Rightarrow> ResultType \<times> Catalog" where
  "CreatePrimaryIndex database_name table_name s =
     (case GetDatabaseWithName database_name s of
        Some database \<Rightarrow>
          (case Database_GetTableWithName table_name database of
             None \<Rightarrow> (FAILURE, s)
           | Some table \<Rightarrow>
               let schema = table_GetSchema table;
                   key_attrs = find_primary_attrs schema 0 [];
                   key_schema = CopySchema schema key_attrs;
                   index_name = table_GetName table @ ''_PKEY'';
                   unique_keys = True;
                   (index_oid, s) = GetNextOid s;
                   pkey_index =
                     \<lparr>index_GetName = Upper index_name, index_GetOid = index_oid,
                      index_GetTableOid = table_GetOid table,
                      index_GetDatabaseOid = database_GetOid database,
                      index_GetIndexType = BWTREE, index_GetConstraintType = PRIMARY_KEY,
                      index_tuple_schema = schema, index_key_schema = key_schema,
                      index_key_attrs = key_attrs, index_unique_keys = unique_keys\<rparr>;
                   s = update_database (database_GetOid database)
                         (update_table_with_name table_name (DataTable_AddIndex pkey_index)) s
               in (SUCCESS, s))
      | None \<Rightarrow> (FAILURE, s))"

text \<open>
  The loop of \<^verbatim>\<open>CreateTable\<close> over the columns: one column-catalog tuple each, and the
  flag \<^verbatim>\<open>has_primary_key\<close>.
\<close>

fun InsertColumns :: "oid_t \<Rightarrow> Schema \<Rightarrow> bool \<Rightarrow> ColumnTuple list \<Rightarrow> bool \<times> ColumnTuple list" where
  "InsertColumns table_oid [] has_primary_key rows = (has_primary_key, rows)"
| "InsertColumns table_oid (column # schema_columns) has_primary_key rows =
     InsertColumns table_oid schema_columns
       (if IsPrimary column then True else has_primary_key)
       (InsertColumn table_oid (column_name column) (column_offset column) (column_type column)
          (is_inlined column) (column_constraints column) rows)"

text \<open>
  \<^verbatim>\<open>CreateTable\<close> ends with
  \<^verbatim>\<open>if (has_primary_key == true) auto result = CreatePrimaryIndex(...); return result;\<close>.
  The value \<^verbatim>\<open>result\<close> is given only under the condition. The model returns
  \<open>Some\<close> of the result code where the source determines one and \<open>None\<close> where
  \<^verbatim>\<open>result\<close> was never given a value.
\<close>

definition CreateTable :: "string \<Rightarrow> string \<Rightarrow> Schema \<Rightarrow> Catalog \<Rightarrow> ResultType option \<times> Catalog" where
  "CreateTable database_name table_name schema s =
     (case GetDatabaseWithName database_name s of
        None \<Rightarrow> (Some FAILURE, s)
      | Some database \<Rightarrow>
          (case Database_GetTableWithName table_name database of
             Some table \<Rightarrow> (Some FAILURE, s)
           | None \<Rightarrow>
               let database_oid = database_GetOid database;
                   (table_oid, s) = GetNextOid s;
                   table = \<lparr>table_GetOid = table_oid, table_GetName = table_name,
                            table_GetDatabaseOid = database_oid, table_GetSchema = schema,
                            table_indexes = []\<rparr>;
                   s = update_database database_oid (Database_AddTable table) s;
                   s = s\<lparr>pg_table :=
                          InsertTable table_oid table_name database_oid database_name (pg_table s)\<rparr>;
                   (has_primary_key, rows) =
                     InsertColumns table_oid (table_GetSchema table) False (pg_attribute s);
                   s = s\<lparr>pg_attribute := rows\<rparr>
               in if has_primary_key
                  then (let (result, s) = CreatePrimaryIndex database_name table_name s
                        in (Some result, s))
                  else (None, s)))"

text \<open>The two nested loops of \<^verbatim>\<open>CreateIndex\<close> that resolve the requested names.\<close>

fun match_columns :: "string \<Rightarrow> Schema \<Rightarrow> nat \<Rightarrow> nat list \<Rightarrow> nat list" where
  "match_columns attr [] i key_attrs = key_attrs"
| "match_columns attr (column # columns) i key_attrs =
     match_columns attr columns (i + 1)
       (if attr = column_name column then key_attrs @ [i] else key_attrs)"

fun resolve_attrs :: "string list \<Rightarrow> Schema \<Rightarrow> nat list \<Rightarrow> nat list" where
  "resolve_attrs [] columns key_attrs = key_attrs"
| "resolve_attrs (attr # index_attr) columns key_attrs =
     resolve_attrs index_attr columns (match_columns attr columns 0 key_attrs)"

definition CreateIndex ::
  "string \<Rightarrow> string \<Rightarrow> string list \<Rightarrow> string \<Rightarrow> bool \<Rightarrow> IndexType \<Rightarrow> Catalog \<Rightarrow> ResultType \<times> Catalog" where
  "CreateIndex database_name table_name index_attr index_name unique_keys index_type s =
     (let database_oid = GetDatabaseOid database_name (pg_database s) in
      if database_oid = INVALID_OID then (FAILURE, s)
      else
        let table_oid = GetTableOid table_name (pg_table s) in
        if table_oid = INVALID_OID then (FAILURE, s)
        else
          (case GetDatabaseWithOid database_oid s of
             None \<Rightarrow> (FAILURE, s)
           | Some database \<Rightarrow>
               (case Database_GetTableWithOid table_oid database of
                  None \<Rightarrow> (FAILURE, s)
                | Some table \<Rightarrow>
                    let schema = table_GetSchema table;
                        key_attrs = resolve_attrs index_attr schema []
                    in if length key_attrs \<noteq> length index_attr then (FAILURE, s)
                       else
                         let key_schema = CopySchema schema key_attrs;
                             (index_oid, s) = GetNextOid s;
                             key_index =
                               (if unique_keys = False
                                then \<lparr>index_GetName = index_name, index_GetOid = index_oid,
                                      index_GetTableOid = table_GetOid table,
                                      index_GetDatabaseOid = database_GetOid database,
                                      index_GetIndexType = index_type,
                                      index_GetConstraintType = DEFAULT,
                                      index_tuple_schema = schema, index_key_schema = key_schema,
                                      index_key_attrs = key_attrs, index_unique_keys = True\<rparr>
                                else \<lparr>index_GetName = index_name, index_GetOid = index_oid,
                                      index_GetTableOid = table_GetOid table,
                                      index_GetDatabaseOid = database_GetOid database,
                                      index_GetIndexType = index_type,
                                      index_GetConstraintType = UNIQUE,
                                      index_tuple_schema = schema, index_key_schema = key_schema,
                                      index_key_attrs = key_attrs, index_unique_keys = True\<rparr>);
                             s = update_database database_oid
                                   (update_table_with_oid table_oid (DataTable_AddIndex key_index)) s;
                             s = s\<lparr>pg_index :=
                                    IndexCatalog_Insert index_oid index_name table_oid database_oid
                                      unique_keys (pg_index s)\<rparr>
                         in (SUCCESS, s))))"

text \<open>
  \<^verbatim>\<open>DropIndex\<close> tests \<^verbatim>\<open>database != nullptr\<close> before it returns FAILURE, and calls
  \<^verbatim>\<open>database->GetTableWithOid\<close> afterwards.
\<close>

definition DropIndex :: "oid_t \<Rightarrow> oid_t \<Rightarrow> Catalog \<Rightarrow> fault + ResultType \<times> Catalog" where
  "DropIndex database_oid index_oid s =
     (let database = GetDatabaseWithOid database_oid s in
      if database \<noteq> None then Inr (FAILURE, s)
      else
        let table_oid = GetTableidByOid index_oid (pg_index s) in
        if table_oid = INVALID_OID then Inr (FAILURE, s)
        else
          (case database of
             None \<Rightarrow> Inl NullDereference
           | Some d \<Rightarrow>
               (case Database_GetTableWithOid table_oid d of
                  None \<Rightarrow> Inr (FAILURE, s)
                | Some table \<Rightarrow>
                    let s = update_database database_oid
                              (update_table_with_oid table_oid (DataTable_DropIndexWithOid index_oid)) s;
                        s = s\<lparr>pg_index := IndexCatalog_DeleteByOid index_oid (pg_index s)\<rparr>
                    in Inr (SUCCESS, s))))"

definition DropDatabaseWithName :: "string \<Rightarrow> Catalog \<Rightarrow> ResultType \<times> Catalog" where
  "DropDatabaseWithName database_name s =
     (let database_oid = GetDatabaseOid database_name (pg_database s) in
      if database_oid = INVALID_OID then (FAILURE, s)
      else
        let (found, rows) = DeleteDatabase database_oid (pg_database s) in
        if \<not> found then (FAILURE, s\<lparr>pg_database := rows\<rparr>)
        else (SUCCESS, s\<lparr>pg_database := rows\<rparr>))"

text \<open>The loop of \<^verbatim>\<open>DropTable\<close> and \<^verbatim>\<open>DropTableWithOid\<close> over the columns.\<close>

fun DeleteColumns :: "oid_t \<Rightarrow> Schema \<Rightarrow> ColumnTuple list \<Rightarrow> ColumnTuple list" where
  "DeleteColumns table_oid [] rows = rows"
| "DeleteColumns table_oid (column # schema_columns) rows =
     DeleteColumns table_oid schema_columns (DeleteColumn table_oid (column_name column) rows)"

text \<open>
  Both drop functions test \<^verbatim>\<open>database == nullptr\<close> a second time where the table was
  just looked up, so a missing table reaches \<^verbatim>\<open>table->...\<close>. The schema is read
  after the table has left its database; the model reads the table it looked up.
\<close>

definition DropTable :: "string \<Rightarrow> string \<Rightarrow> Catalog \<Rightarrow> fault + ResultType \<times> Catalog" where
  "DropTable database_name table_name s =
     (case GetDatabaseWithName database_name s of
        None \<Rightarrow> Inr (FAILURE, s)
      | Some database \<Rightarrow>
          (case Database_GetTableWithName table_name database of
             None \<Rightarrow> Inl NullDereference
           | Some table \<Rightarrow>
               let table_oid = table_GetOid table;
                   s = update_database (database_GetOid database)
                         (update_table_with_name table_name DataTable_DropIndexes) s;
                   s = update_database (database_GetOid database)
                         (Database_DropTableWithOid table_oid) s;
                   s = s\<lparr>pg_table := DeleteTable table_oid (pg_table s)\<rparr>;
                   s = s\<lparr>pg_attribute :=
                          DeleteColumns table_oid (table_GetSchema table) (pg_attribute s)\<rparr>
               in Inr (SUCCESS, s)))"

definition DropTableWithOid :: "oid_t \<Rightarrow> oid_t \<Rightarrow> Catalog \<Rightarrow> fault + ResultType \<times> Catalog" where
  "DropTableWithOid database_oid table_oid s =
     (case GetDatabaseWithOid database_oid s of
        None \<Rightarrow> Inr (FAILURE, s)
      | Some database \<Rightarrow>
          (case Database_GetTableWithOid table_oid database of
             None \<Rightarrow> Inl NullDereference
           | Some table \<Rightarrow>
               let s = update_database database_oid
                         (update_table_with_oid table_oid DataTable_DropIndexes) s;
                   s = update_database database_oid (Database_DropTableWithOid table_oid) s;
                   s = s\<lparr>pg_table := DeleteTable table_oid (pg_table s)\<rparr>;
                   s = s\<lparr>pg_attribute :=
                          DeleteColumns table_oid (table_GetSchema table) (pg_attribute s)\<rparr>
               in Inr (SUCCESS, s)))"

text \<open>The loop of \<^verbatim>\<open>DropDatabaseWithOid\<close> over the table oids; it reads no result.\<close>

fun DropTables :: "oid_t \<Rightarrow> oid_t list \<Rightarrow> Catalog \<Rightarrow> fault + Catalog" where
  "DropTables database_oid [] s = Inr s"
| "DropTables database_oid (table_oid # table_oids) s =
     (case DropTableWithOid database_oid table_oid s of
        Inl e \<Rightarrow> Inl e
      | Inr (result, s') \<Rightarrow> DropTables database_oid table_oids s')"

definition DropDatabaseWithOid :: "oid_t \<Rightarrow> Catalog \<Rightarrow> fault + ResultType \<times> Catalog" where
  "DropDatabaseWithOid database_oid s =
     (let table_oids = GetTableOids database_oid (pg_table s) in
      case DropTables database_oid table_oids s of
        Inl e \<Rightarrow> Inl e
      | Inr s \<Rightarrow>
          let (found, rows) = DeleteDatabase database_oid (pg_database s);
              s = s\<lparr>pg_database := rows\<rparr>
          in if \<not> found then Inr (FAILURE, s)
             else
               let found_database =
                     (find (\<lambda>d. database_GetOid d = database_oid) (databases s) \<noteq> None);
                   s = s\<lparr>databases :=
                          remove_first (\<lambda>d. database_GetOid d = database_oid) (databases s)\<rparr>
               in if \<not> found_database then Inr (FAILURE, s) else Inr (SUCCESS, s))"

section \<open>Sequences of DDL operations and the two sides of the bookkeeping\<close>

datatype ddl_op =
    OpCreateDatabase string
  | OpCreateTable string string Schema
  | OpCreateIndex string string "string list" string bool IndexType
  | OpCreatePrimaryIndex string string
  | OpDropTable string string
  | OpDropTableWithOid oid_t oid_t
  | OpDropIndex oid_t oid_t
  | OpDropDatabaseWithOid oid_t

text \<open>
  One operation: a fault, or what the caller receives (\<open>None\<close> where
  \<^verbatim>\<open>CreateTable\<close> determines no result) and the catalog afterwards.
\<close>

fun apply_op :: "ddl_op \<Rightarrow> Catalog \<Rightarrow> fault + ResultType option \<times> Catalog" where
  "apply_op (OpCreateDatabase database_name) s =
     (case CreateDatabase database_name s of (r, s') \<Rightarrow> Inr (Some r, s'))"
| "apply_op (OpCreateTable database_name table_name schema) s =
     Inr (CreateTable database_name table_name schema s)"
| "apply_op (OpCreateIndex database_name table_name index_attr index_name unique_keys index_type) s =
     (case CreateIndex database_name table_name index_attr index_name unique_keys index_type s of
        (r, s') \<Rightarrow> Inr (Some r, s'))"
| "apply_op (OpCreatePrimaryIndex database_name table_name) s =
     (case CreatePrimaryIndex database_name table_name s of (r, s') \<Rightarrow> Inr (Some r, s'))"
| "apply_op (OpDropTable database_name table_name) s =
     (case DropTable database_name table_name s of
        Inl e \<Rightarrow> Inl e | Inr (r, s') \<Rightarrow> Inr (Some r, s'))"
| "apply_op (OpDropTableWithOid database_oid table_oid) s =
     (case DropTableWithOid database_oid table_oid s of
        Inl e \<Rightarrow> Inl e | Inr (r, s') \<Rightarrow> Inr (Some r, s'))"
| "apply_op (OpDropIndex database_oid index_oid) s =
     (case DropIndex database_oid index_oid s of
        Inl e \<Rightarrow> Inl e | Inr (r, s') \<Rightarrow> Inr (Some r, s'))"
| "apply_op (OpDropDatabaseWithOid database_oid) s =
     (case DropDatabaseWithOid database_oid s of
        Inl e \<Rightarrow> Inl e | Inr (r, s') \<Rightarrow> Inr (Some r, s'))"

text \<open>
  A sequence in which every operation reported SUCCESS: the catalog it leaves, and
  \<open>None\<close> as soon as one operation reports anything else.
\<close>

fun all_succeed :: "ddl_op list \<Rightarrow> Catalog \<Rightarrow> Catalog option" where
  "all_succeed [] s = Some s"
| "all_succeed (op # ops) s =
     (case apply_op op s of
        Inr (Some SUCCESS, s') \<Rightarrow> all_succeed ops s'
      | _ \<Rightarrow> None)"

text \<open>
  The live side and the catalog side, per kind. A column has no oid of its own: the
  column catalog identifies it by its table's oid and its name.
\<close>

definition live_tables :: "Catalog \<Rightarrow> DataTable list" where
  "live_tables s = concat (map database_tables (databases s))"

definition live_database_oids :: "Catalog \<Rightarrow> oid_t set" where
  "live_database_oids s = set (map database_GetOid (databases s))"

definition live_table_oids :: "Catalog \<Rightarrow> oid_t set" where
  "live_table_oids s = set (map table_GetOid (live_tables s))"

definition live_columns :: "Catalog \<Rightarrow> (oid_t \<times> string) set" where
  "live_columns s =
     set (concat (map (\<lambda>t. map (\<lambda>c. (table_GetOid t, column_name c)) (table_GetSchema t))
                    (live_tables s)))"

definition live_index_oids :: "Catalog \<Rightarrow> oid_t set" where
  "live_index_oids s = set (map index_GetOid (concat (map table_indexes (live_tables s))))"

definition catalog_database_oids :: "Catalog \<Rightarrow> oid_t set" where
  "catalog_database_oids s = set (map dt_oid (pg_database s))"

definition catalog_table_oids :: "Catalog \<Rightarrow> oid_t set" where
  "catalog_table_oids s = set (map tt_oid (pg_table s))"

definition catalog_columns :: "Catalog \<Rightarrow> (oid_t \<times> string) set" where
  "catalog_columns s = set (map (\<lambda>t. (ct_table_oid t, ct_name t)) (pg_attribute s))"

definition catalog_index_oids :: "Catalog \<Rightarrow> oid_t set" where
  "catalog_index_oids s = set (map it_oid (pg_index s))"

definition dual_bookkeeping :: "Catalog \<Rightarrow> bool" where
  "dual_bookkeeping s =
     (live_database_oids s = catalog_database_oids s
      \<and> live_table_oids s = catalog_table_oids s
      \<and> live_columns s = catalog_columns s
      \<and> live_index_oids s = catalog_index_oids s)"

section \<open>The materialization executor\<close>

text \<open>
  The source holds the plan node (\<^verbatim>\<open>MaterializationNode\<close>, which stores the map
  \<^verbatim>\<open>old_to_new_cols\<close> and a schema) and the tests of the executor. The executor
  itself, the logical tile and the physical tile are missing; they are modelled from the
  spec (sections 1, 3, 4.4 and 8), read together with the tests.
\<close>

datatype Value = IntegerValue int | TinyIntValue int | StringValue string

text \<open>
  Modelled from the spec: a physical tile ("a black-box column store exposing
  get/set-by-offset and schema introspection"): its schema and its rows. The store holds
  the allocated tiles; a pointer to a tile is its position in the store.
\<close>

record Tile =
  tile_schema :: Schema
  tile_rows :: "Value list list"

type_synonym tile_ptr = nat

definition Tile_GetValue :: "Tile \<Rightarrow> nat \<Rightarrow> nat \<Rightarrow> Value option" where
  "Tile_GetValue tile row col =
     (if row < length (tile_rows tile) \<and> col < length (tile_rows tile ! row)
      then Some (tile_rows tile ! row ! col) else None)"

text \<open>
  Modelled from the spec: a logical tile ("a list of (output-column-index \<rightarrow>
  source-base-tile, source-base-column-index) entries, ... plus an ordered or bitmap set
  of visible row positions"); \<open>None\<close> for the rows when the tile has "no explicit
  visibility restriction".
\<close>

record LogicalTile =
  lt_columns :: "(tile_ptr \<times> nat) list"
  lt_visible_rows :: "nat list option"

definition NumCols :: "LogicalTile \<Rightarrow> nat" where
  "NumCols lt = length (lt_columns lt)"

definition GetBaseTile :: "LogicalTile \<Rightarrow> nat \<Rightarrow> tile_ptr option" where
  "GetBaseTile lt col = (if col < NumCols lt then Some (fst (lt_columns lt ! col)) else None)"

definition visible_rows :: "Tile list \<Rightarrow> LogicalTile \<Rightarrow> tile_ptr \<Rightarrow> nat list" where
  "visible_rows store lt base =
     (case lt_visible_rows lt of
        Some rows \<Rightarrow> rows
      | None \<Rightarrow> [0 ..< length (tile_rows (store ! base))])"

definition LogicalTile_GetValue :: "Tile list \<Rightarrow> LogicalTile \<Rightarrow> nat \<Rightarrow> nat \<Rightarrow> Value option" where
  "LogicalTile_GetValue store lt col row =
     (if col < NumCols lt \<and> fst (lt_columns lt ! col) < length store
         \<and> row < length (visible_rows store lt (fst (lt_columns lt ! col)))
      then Tile_GetValue (store ! fst (lt_columns lt ! col))
             (visible_rows store lt (fst (lt_columns lt ! col)) ! row) (snd (lt_columns lt ! col))
      else None)"

text \<open>
  The plan's map \<^verbatim>\<open>old_to_new_cols\<close> (an \<^verbatim>\<open>unordered_map\<close> in the source): pairs
  (old column, new column) with unique keys. Its order is irrelevant, so the model reads
  it in the order of the new column.
\<close>

type_synonym plan_map = "(nat \<times> nat) list"

text \<open>
  \<^verbatim>\<open>MaterializationNode\<close>, from the source: the constructor stores the map and the
  output schema, the two accessors return them, and the two remaining members are stubs.
\<close>

record MaterializationNode =
  node_old_to_new_cols :: plan_map
  node_schema :: Schema

datatype PlanNodeType = PLAN_NODE_TYPE_INVALID

definition GetPlanNodeType :: "MaterializationNode \<Rightarrow> PlanNodeType" where
  "GetPlanNodeType node = PLAN_NODE_TYPE_INVALID"

definition debugInfo :: "MaterializationNode \<Rightarrow> string \<Rightarrow> string" where
  "debugInfo node spacer = []"

definition by_new_column :: "plan_map \<Rightarrow> plan_map" where
  "by_new_column old_to_new_cols = sort_key snd old_to_new_cols"

text \<open>
  Modelled from the spec, step 1: "Partition the plan's old\<rightarrow>new column map by which
  distinct base tile each old column belongs to ... one group per base tile actually
  referenced by at least one output column."
\<close>

definition referenced_base_tiles :: "plan_map \<Rightarrow> LogicalTile \<Rightarrow> tile_ptr list" where
  "referenced_base_tiles old_to_new_cols lt =
     remdups (map (\<lambda>(old, new). fst (lt_columns lt ! old)) (by_new_column old_to_new_cols))"

definition group_of :: "plan_map \<Rightarrow> LogicalTile \<Rightarrow> tile_ptr \<Rightarrow> plan_map" where
  "group_of old_to_new_cols lt base =
     filter (\<lambda>(old, new). fst (lt_columns lt ! old) = base) (by_new_column old_to_new_cols)"

definition num_visible_rows :: "Tile list \<Rightarrow> plan_map \<Rightarrow> LogicalTile \<Rightarrow> nat" where
  "num_visible_rows store old_to_new_cols lt =
     (case referenced_base_tiles old_to_new_cols lt of
        [] \<Rightarrow> 0
      | base # rest \<Rightarrow> length (visible_rows store lt base))"

text \<open>
  The spec names no behaviour for a plan over columns, tiles or rows that the input does
  not have, for new columns that are not exactly the positions of the plan's output
  schema, or for base tiles that differ in their number of visible rows; the model gives
  no result there.
\<close>

definition well_formed_input :: "Tile list \<Rightarrow> MaterializationNode \<Rightarrow> LogicalTile \<Rightarrow> bool" where
  "well_formed_input store node lt =
     (map snd (by_new_column (node_old_to_new_cols node)) = [0 ..< length (node_schema node)]
      \<and> list_all (\<lambda>(old, new).
           old < NumCols lt \<and> fst (lt_columns lt ! old) < length store
           \<and> snd (lt_columns lt ! old) < length (tile_schema (store ! fst (lt_columns lt ! old)))
           \<and> length (visible_rows store lt (fst (lt_columns lt ! old)))
               = num_visible_rows store (node_old_to_new_cols node) lt
           \<and> list_all (\<lambda>row. Tile_GetValue (store ! fst (lt_columns lt ! old)) row
                                 (snd (lt_columns lt ! old)) \<noteq> None)
                (visible_rows store lt (fst (lt_columns lt ! old))))
          (by_new_column (node_old_to_new_cols node)))"

text \<open>
  Modelled from the spec, step 3: "Copy every visible row ... from source column to
  destination column, value by value", one group at a time: for each column of the
  group, its new position and the values of the source column at the visible rows.
\<close>

definition copy_group ::
  "Tile list \<Rightarrow> LogicalTile \<Rightarrow> tile_ptr \<Rightarrow> plan_map \<Rightarrow> (nat \<times> Value list) list" where
  "copy_group store lt base grp =
     map (\<lambda>(old, new).
            (new, map (\<lambda>row. tile_rows (store ! base) ! row ! snd (lt_columns lt ! old))
                    (visible_rows store lt base)))
       grp"

text \<open>
  Modelled from the spec: the materialization of one input tile. The executor produces
  "a single physically contiguous tile with a caller-specified column layout" (section
  1): the layout is the output schema that the plan node stores, and the tests of the
  repository and the scenarios of section 8 find that one produced tile behind every
  output column. So the groups of step 1 organise the copy into the one destination
  tile, whose column at each new position is the source column the plan maps there; the
  result is "a new logical tile" over the freshly allocated tile (step 4), with no
  visibility restriction. Where steps 2 and 4 speak of a tile per group, the model
  follows section 1, section 8 and the tests.
\<close>

definition Materialize ::
  "Tile list \<Rightarrow> MaterializationNode \<Rightarrow> LogicalTile \<Rightarrow> (LogicalTile \<times> Tile list) option" where
  "Materialize store node lt =
     (if \<not> well_formed_input store node lt then None
      else
        let old_to_new_cols = node_old_to_new_cols node;
            bases = referenced_base_tiles old_to_new_cols lt;
            copied = concat (map (\<lambda>base. copy_group store lt base (group_of old_to_new_cols lt base)) bases);
            columns = map snd (sort_key fst copied);
            dest_tile =
              \<lparr>tile_schema = node_schema node,
               tile_rows = map (\<lambda>row. map (\<lambda>column. column ! row) columns)
                             [0 ..< num_visible_rows store old_to_new_cols lt]\<rparr>
        in Some (\<lparr>lt_columns = map (\<lambda>col. (length store, col)) [0 ..< length columns],
                   lt_visible_rows = None\<rparr>,
                 store @ [dest_tile]))"

text \<open>
  Modelled from the spec: the child operator, as the answers it gives to successive
  calls (the tests script them with \<^verbatim>\<open>WillOnce\<close>) and the number of calls made so far;
  past the script it reports end-of-stream.
\<close>

record Child =
  child_init :: bool
  child_answers :: "LogicalTile option list"
  child_pulled :: nat

definition Child_GetNextTile :: "Child \<Rightarrow> LogicalTile option \<times> Child" where
  "Child_GetNextTile c =
     (if child_pulled c < length (child_answers c) then child_answers c ! child_pulled c else None,
      c\<lparr>child_pulled := child_pulled c + 1\<rparr>)"

text \<open>
  Modelled from the spec: "State machine: UNINITIALIZED \<rightarrow> READY (after successful child
  initialization) \<rightarrow> PRODUCING (repeated GetNext calls) \<rightarrow> EXHAUSTED. Initialization
  forwards to the single child and fails if the child fails." and "GetNextTile()
  contract: pulls exactly one logical tile from the child; if the child signals
  end-of-stream, this operator also signals end-of-stream (returns no tile) and
  transitions to EXHAUSTED". The spec is silent on a call before initialization and on an
  ill-formed input tile; the model reports them as faults. Values are copied by value,
  so a produced tile shares no storage with its source; releasing the input (step 5)
  frees memory and changes no value, and is left out.
\<close>

datatype ExecutorState = UNINITIALIZED | READY | PRODUCING | EXHAUSTED

datatype executor_fault = NotInitialized | IllFormedInput

record Executor =
  ex_state :: ExecutorState
  ex_node :: MaterializationNode
  ex_child :: Child
  ex_store :: "Tile list"

definition Init :: "Executor \<Rightarrow> bool \<times> Executor" where
  "Init ex = (if child_init (ex_child ex) then (True, ex\<lparr>ex_state := READY\<rparr>) else (False, ex))"

definition GetNextTile :: "Executor \<Rightarrow> executor_fault + LogicalTile option \<times> Executor" where
  "GetNextTile ex =
     (case ex_state ex of
        UNINITIALIZED \<Rightarrow> Inl NotInitialized
      | EXHAUSTED \<Rightarrow> Inr (None, ex)
      | _ \<Rightarrow>
          let (source_tile, child) = Child_GetNextTile (ex_child ex) in
          (case source_tile of
             None \<Rightarrow> Inr (None, ex\<lparr>ex_state := EXHAUSTED, ex_child := child\<rparr>)
           | Some lt \<Rightarrow>
               (case Materialize (ex_store ex) (ex_node ex) lt of
                  None \<Rightarrow> Inl IllFormedInput
                | Some (result, store) \<Rightarrow>
                    Inr (Some result,
                         ex\<lparr>ex_state := PRODUCING, ex_child := child, ex_store := store\<rparr>))))"

text \<open>The executor after \<open>n\<close> further calls of \<^verbatim>\<open>GetNextTile\<close>.\<close>

fun after_calls :: "nat \<Rightarrow> Executor \<Rightarrow> Executor" where
  "after_calls 0 ex = ex"
| "after_calls (Suc n) ex =
     (case GetNextTile ex of
        Inl e \<Rightarrow> after_calls n ex
      | Inr (tile, ex') \<Rightarrow> after_calls n ex')"

section \<open>Concrete inputs\<close>

text \<open>
  A catalog with no database and no tuple whose generator stands at 1, a column
  descriptor with a name and constraints, and the sequence of calls used as the running
  example: a database \<^verbatim>\<open>db\<close> (oid 1), a table \<^verbatim>\<open>t\<close> (oid 2) with the columns
  \<^verbatim>\<open>[a:PRIMARY, b, c:PRIMARY]\<close> and its primary-key index (oid 3), then a second index
  on \<^verbatim>\<open>b\<close> (oid 4).
\<close>

definition fresh_catalog :: Catalog where
  "fresh_catalog =
     \<lparr>databases = [], pg_database = [], pg_table = [], pg_attribute = [], pg_index = [],
      next_oid = 1\<rparr>"

definition example_column :: "string \<Rightarrow> nat \<Rightarrow> ConstraintType list \<Rightarrow> Column" where
  "example_column name offset cs =
     \<lparr>column_name = name, column_offset = offset, column_type = INTEGER, is_inlined = True,
      column_constraints = cs\<rparr>"

definition example_schema :: Schema where
  "example_schema =
     [example_column ''a'' 0 [PRIMARY], example_column ''b'' 1 [], example_column ''c'' 2 [PRIMARY]]"

definition catalog_with_db :: Catalog where
  "catalog_with_db = snd (CreateDatabase ''db'' fresh_catalog)"

definition catalog_with_table :: Catalog where
  "catalog_with_table = snd (CreateTable ''db'' ''t'' example_schema catalog_with_db)"

definition catalog_with_index :: Catalog where
  "catalog_with_index =
     snd (CreateIndex ''db'' ''t'' [''b''] ''t_b_idx'' False BWTREE catalog_with_table)"

text \<open>
  The input of the test \<^verbatim>\<open>TwoBaseTilesWithReorderTest\<close>: \<^verbatim>\<open>PopulateTiles\<close> fills row
  \<open>i\<close> of a tile group of two tiles (columns 0, 1 and columns 2, 3) with
  \<open>10 i\<close>, \<open>10 i + 1\<close>, \<open>10 i + 2\<close> and the decimal text of \<open>10 i + 3\<close>; the
  logical tile wraps both base tiles; the plan maps 3 to 0, 1 to 1, 0 to 2 and its output
  schema is the column descriptors of the source columns 3, 1, 0; the mocked child
  answers with the tile, then with end-of-stream.
\<close>

fun to_string :: "nat \<Rightarrow> string" where
  "to_string n =
     (if n < 10 then [char_of (48 + n)] else to_string (n div 10) @ [char_of (48 + n mod 10)])"

definition PopulateTiles :: "nat \<Rightarrow> Tile list" where
  "PopulateTiles num_rows =
     [\<lparr>tile_schema = [example_column ''c0'' 0 [], example_column ''c1'' 1 []],
       tile_rows = map (\<lambda>i. [IntegerValue (10 * int i), IntegerValue (10 * int i + 1)]) [0 ..< num_rows]\<rparr>,
      \<lparr>tile_schema =
         [\<lparr>column_name = ''c2'', column_offset = 0, column_type = TINYINT, is_inlined = True,
           column_constraints = []\<rparr>,
          \<lparr>column_name = ''c3'', column_offset = 1, column_type = VARCHAR, is_inlined = False,
           column_constraints = []\<rparr>],
       tile_rows = map (\<lambda>i. [TinyIntValue (10 * int i + 2), StringValue (to_string (10 * i + 3))]) [0 ..< num_rows]\<rparr>]"

definition source_tile :: LogicalTile where
  "source_tile = \<lparr>lt_columns = [(0, 0), (0, 1), (1, 0), (1, 1)], lt_visible_rows = None\<rparr>"

definition reorder_test :: Executor where
  "reorder_test =
     \<lparr>ex_state = UNINITIALIZED,
      ex_node =
        \<lparr>node_old_to_new_cols = [(3, 0), (1, 1), (0, 2)],
         node_schema =
           [tile_schema (PopulateTiles 9 ! 1) ! 1, tile_schema (PopulateTiles 9 ! 0) ! 1,
            tile_schema (PopulateTiles 9 ! 0) ! 0]\<rparr>,
      ex_child = \<lparr>child_init = True, child_answers = [Some source_tile, None], child_pulled = 0\<rparr>,
      ex_store = PopulateTiles 9\<rparr>"

text \<open>
  A table with two columns of the same name, a second database object whose name is
  already taken, one whose name is new, and the executor of the test after its first and
  after its second call.
\<close>

definition schema_with_repeated_name :: Schema where
  "schema_with_repeated_name = [example_column ''x'' 0 [PRIMARY], example_column ''x'' 1 []]"

definition catalog_with_repeated_name :: Catalog where
  "catalog_with_repeated_name =
     snd (CreateTable ''db'' ''r'' schema_with_repeated_name catalog_with_db)"

definition second_db :: Database where
  "second_db = \<lparr>database_GetOid = 7, database_GetDBName = ''db'', database_tables = []\<rparr>"

definition test_db :: Database where
  "test_db = \<lparr>database_GetOid = 7, database_GetDBName = ''test'', database_tables = []\<rparr>"

definition after_first_tile :: Executor where
  "after_first_tile = after_calls 1 (snd (Init reorder_test))"

definition after_end_of_stream :: Executor where
  "after_end_of_stream =
     after_first_tile\<lparr>ex_state := EXHAUSTED,
       ex_child := (ex_child after_first_tile)\<lparr>child_pulled := child_pulled (ex_child after_first_tile) + 1\<rparr>\<rparr>"

text \<open>
  The tile that the plan 3 to 0, 1 to 1, 0 to 2 makes of two base tiles, for the lemmas
  below: row by row, column 1 of the second tile, then columns 1 and 0 of the first.
\<close>

definition reordered_tile :: "Schema \<Rightarrow> Tile \<Rightarrow> Tile \<Rightarrow> Tile" where
  "reordered_tile schema t0 t1 =
     \<lparr>tile_schema = schema,
      tile_rows = map (\<lambda>row. [tile_rows t1 ! row ! 1, tile_rows t0 ! row ! 1, tile_rows t0 ! row ! 0])
                    [0 ..< length (tile_rows t0)]\<rparr>"

text \<open>The index that \<^verbatim>\<open>CreatePrimaryIndex\<close> builds for a table, for the lemmas below.\<close>

definition pkey_of :: "Catalog \<Rightarrow> Database \<Rightarrow> DataTable \<Rightarrow> Index" where
  "pkey_of s database table =
     \<lparr>index_GetName = Upper (table_GetName table) @ ''_PKEY'',
      index_GetOid = next_oid s,
      index_GetTableOid = table_GetOid table,
      index_GetDatabaseOid = database_GetOid database,
      index_GetIndexType = BWTREE,
      index_GetConstraintType = PRIMARY_KEY,
      index_tuple_schema = table_GetSchema table,
      index_key_schema =
        map (\<lambda>i. table_GetSchema table ! i)
          (filter (\<lambda>i. IsPrimary (table_GetSchema table ! i)) [0 ..< length (table_GetSchema table)]),
      index_key_attrs =
        filter (\<lambda>i. IsPrimary (table_GetSchema table ! i)) [0 ..< length (table_GetSchema table)],
      index_unique_keys = True\<rparr>"

section \<open>Facts about the lookups\<close>

lemma find_map_first:
  "(\<And>x. P x \<Longrightarrow> P (f x)) \<Longrightarrow> find P (map_first P f xs) = map_option f (find P xs)"
  by (induction xs) auto

lemma find_Some_holds: "find P xs = Some x \<Longrightarrow> P x"
  by (induction xs) (auto split: if_splits)

lemma find_primary_attrs_eq:
  "find_primary_attrs cols k acc
     = acc @ map (\<lambda>i. i + k) (filter (\<lambda>i. IsPrimary (cols ! i)) [0 ..< length cols])"
proof (induction cols arbitrary: k acc)
  case Nil
  then show ?case by simp
next
  case (Cons c cols)
  have upt: "[0 ..< length (c # cols)] = 0 # map Suc [0 ..< length cols]"
    by (simp add: upt_conv_Cons map_Suc_upt del: upt_Suc)
  show ?case
    unfolding upt by (simp add: Cons.IH filter_map comp_def)
qed

lemma Upper_append: "Upper (a @ b) = Upper a @ Upper b"
  by (simp add: Upper_def)

lemma Upper_PKEY: "Upper ''_PKEY'' = ''_PKEY''"
  by code_simp

lemma GetDatabaseWithName_oid:
  "GetDatabaseWithName database_name s = Some database \<Longrightarrow>
   database_GetOid database = GetDatabaseOid database_name (pg_database s)"
  by (auto simp: GetDatabaseWithName_def GetDatabaseWithOid_def dest: find_Some_holds)

lemma GetDatabaseWithOid_update_database:
  "(\<And>d. database_GetOid (f d) = database_GetOid d) \<Longrightarrow>
   GetDatabaseWithOid oid (update_database oid f s) = map_option f (GetDatabaseWithOid oid s)"
  by (simp add: GetDatabaseWithOid_def update_database_def find_map_first)

lemma Database_GetTableWithName_update:
  "(\<And>t. table_GetName (f t) = table_GetName t) \<Longrightarrow>
   Database_GetTableWithName name (update_table_with_name name f d)
     = map_option f (Database_GetTableWithName name d)"
  by (simp add: Database_GetTableWithName_def update_table_with_name_def find_map_first)

lemma find_Some_mem: "find P xs = Some x \<Longrightarrow> x \<in> set xs"
  by (induction xs) (auto split: if_splits)

lemma find_append_case:
  "find P (xs @ ys) = (case find P xs of None \<Rightarrow> find P ys | Some x \<Rightarrow> Some x)"
  by (induction xs) auto

lemma find_filter_None: "find P (filter Q xs) = None \<longleftrightarrow> (\<forall>x\<in>set xs. Q x \<longrightarrow> \<not> P x)"
  by (induction xs) auto

lemma CreatePrimaryIndex_state:
  assumes db: "GetDatabaseWithName database_name s = Some database"
      and tb: "Database_GetTableWithName table_name database = Some table"
  shows "CreatePrimaryIndex database_name table_name s
           = (SUCCESS,
              update_database (database_GetOid database)
                (update_table_with_name table_name (DataTable_AddIndex (pkey_of s database table)))
                (s\<lparr>next_oid := next_oid s + 1\<rparr>))"
  using db tb
  by (simp add: CreatePrimaryIndex_def GetNextOid_def Let_def find_primary_attrs_eq CopySchema_def
      Upper_append Upper_PKEY pkey_of_def)

lemma pg_database_update_database [simp]:
  "pg_database (update_database oid f s) = pg_database s"
  by (simp add: update_database_def)

lemma GetDatabaseWithOid_next_oid [simp]:
  "GetDatabaseWithOid oid (s\<lparr>next_oid := n\<rparr>) = GetDatabaseWithOid oid s"
  by (simp add: GetDatabaseWithOid_def)

section \<open>The catalog: claims\<close>

text \<open>
  Claim C1 (dual bookkeeping): after any sequence of DDL operations that each reported
  SUCCESS, the oids of the live objects of each kind are the oids in the matching
  system-catalog table. The code breaks it: \<^verbatim>\<open>CreateDatabase\<close> and then
  \<^verbatim>\<open>CreateTable\<close> with a primary column both report SUCCESS from a catalog where both
  sides agree, and leave the primary-key index (oid 3) attached to the live table while
  the index catalog is empty, because \<^verbatim>\<open>CreatePrimaryIndex\<close> never inserts an
  index-catalog tuple.
\<close>

theorem primary_index_has_no_catalog_tuple:
  "dual_bookkeeping fresh_catalog
   \<and> (case all_succeed [OpCreateDatabase ''db'', OpCreateTable ''db'' ''t'' example_schema]
              fresh_catalog of
         None \<Rightarrow> False
       | Some s \<Rightarrow>
           live_index_oids s = {3} \<and> catalog_index_oids s = {} \<and> \<not> dual_bookkeeping s)"
  by code_simp

text \<open>
  The other direction of the same defect: \<^verbatim>\<open>DropTable\<close> drops the live indexes and
  leaves their index-catalog tuples (the source says "TODO: delete records in pg_index").
\<close>

lemma drop_table_leaves_index_tuple:
  "(case all_succeed
           [OpCreateDatabase ''db'', OpCreateTable ''db'' ''t'' example_schema,
            OpCreateIndex ''db'' ''t'' [''b''] ''t_b_idx'' False BWTREE, OpDropTable ''db'' ''t'']
           fresh_catalog of
      None \<Rightarrow> False
    | Some s \<Rightarrow>
        live_index_oids s = {} \<and> catalog_index_oids s = {4} \<and> \<not> dual_bookkeeping s)"
  by code_simp

text \<open>
  Claim C3: for a table that the names resolve to, \<^verbatim>\<open>CreatePrimaryIndex\<close> succeeds and
  attaches to the table, after its other indexes, an index whose key ordinals are exactly
  the ordinals of the columns flagged primary, in increasing order, whose key schema is
  the columns at those ordinals, whose name is the upper-cased table name followed by
  \<^verbatim>\<open>_PKEY\<close>, and which is unique, a BWTREE and PRIMARY_KEY-constrained.
\<close>

theorem CreatePrimaryIndex_builds_key:
  assumes db: "GetDatabaseWithName database_name s = Some database"
      and tb: "Database_GetTableWithName table_name database = Some table"
  shows "fst (CreatePrimaryIndex database_name table_name s) = SUCCESS
         \<and> GetTableWithName database_name table_name (snd (CreatePrimaryIndex database_name table_name s))
           = Some (table\<lparr>table_indexes := table_indexes table @
               [\<lparr>index_GetName = Upper table_name @ ''_PKEY'',
                 index_GetOid = next_oid s,
                 index_GetTableOid = table_GetOid table,
                 index_GetDatabaseOid = database_GetOid database,
                 index_GetIndexType = BWTREE,
                 index_GetConstraintType = PRIMARY_KEY,
                 index_tuple_schema = table_GetSchema table,
                 index_key_schema =
                   map (\<lambda>i. table_GetSchema table ! i)
                     (filter (\<lambda>i. IsPrimary (table_GetSchema table ! i)) [0 ..< length (table_GetSchema table)]),
                 index_key_attrs =
                   filter (\<lambda>i. IsPrimary (table_GetSchema table ! i)) [0 ..< length (table_GetSchema table)],
                 index_unique_keys = True\<rparr>]\<rparr>)"
proof -
  have oid: "database_GetOid database = GetDatabaseOid database_name (pg_database s)"
    using db by (rule GetDatabaseWithName_oid)
  have nm: "table_GetName table = table_name"
    using tb by (auto simp: Database_GetTableWithName_def dest: find_Some_holds)
  have db': "GetDatabaseWithOid (database_GetOid database) s = Some database"
    using db by (simp add: GetDatabaseWithName_def oid)
  let ?f = "update_table_with_name table_name (DataTable_AddIndex (pkey_of s database table))"
  have keep: "\<And>d. database_GetOid (?f d) = database_GetOid d"
    by (simp add: update_table_with_name_def)
  have look: "GetDatabaseWithName database_name
                (update_database (database_GetOid database) ?f (s\<lparr>next_oid := next_oid s + 1\<rparr>))
              = Some (?f database)"
    using db' by (simp add: GetDatabaseWithName_def oid [symmetric] GetDatabaseWithOid_update_database [OF keep])
  have tab: "Database_GetTableWithName table_name (?f database)
              = Some (DataTable_AddIndex (pkey_of s database table) table)"
    using tb by (simp add: Database_GetTableWithName_update DataTable_AddIndex_def)
  have "GetTableWithName database_name table_name (snd (CreatePrimaryIndex database_name table_name s))
          = Some (DataTable_AddIndex (pkey_of s database table) table)"
    by (simp add: CreatePrimaryIndex_state [OF db tb] GetTableWithName_def look tab)
  then show ?thesis
    by (simp add: CreatePrimaryIndex_state [OF db tb] DataTable_AddIndex_def pkey_of_def nm)
qed

text \<open>
  Witness for C3: the table \<^verbatim>\<open>t\<close> with columns \<^verbatim>\<open>[a:PRIMARY, b, c:PRIMARY]\<close>; the
  index attached last has the key ordinals 0 and 2.
\<close>

theorem CreatePrimaryIndex_builds_key_witness:
  "GetDatabaseWithName ''db'' catalog_with_table \<noteq> None
   \<and> map_option (map (\<lambda>c. (column_name c, IsPrimary c)) \<circ> table_GetSchema)
        (GetTableWithName ''db'' ''t'' catalog_with_table)
      = Some [(''a'', True), (''b'', False), (''c'', True)]
   \<and> fst (CreatePrimaryIndex ''db'' ''t'' catalog_with_table) = SUCCESS
   \<and> map_option
        ((\<lambda>i. (index_GetName i, index_key_attrs i, map column_name (index_key_schema i),
                index_unique_keys i, index_GetIndexType i, index_GetConstraintType i))
         \<circ> last \<circ> table_indexes)
        (GetTableWithName ''db'' ''t'' (snd (CreatePrimaryIndex ''db'' ''t'' catalog_with_table)))
      = Some (''T_PKEY'', [0, 2], [''a'', ''c''], True, BWTREE, PRIMARY_KEY)"
proof -
  let ?D = "the (GetDatabaseWithName ''db'' catalog_with_table)"
  let ?T = "the (Database_GetTableWithName ''t'' ?D)"
  have db: "GetDatabaseWithName ''db'' catalog_with_table = Some ?D"
    by code_simp
  have tb: "Database_GetTableWithName ''t'' ?D = Some ?T"
    by code_simp
  have attrs: "filter (\<lambda>i. IsPrimary (table_GetSchema ?T ! i)) [0 ..< length (table_GetSchema ?T)] = [0, 2]"
    by code_simp
  have n0: "column_name (table_GetSchema ?T ! 0) = ''a''"
    by code_simp
  have n2: "column_name (table_GetSchema ?T ! 2) = ''c''"
    by code_simp
  have up: "Upper ''t'' = ''T''"
    by code_simp
  have c1: "GetDatabaseWithName ''db'' catalog_with_table \<noteq> None"
    by code_simp
  have c2: "map_option (map (\<lambda>c. (column_name c, IsPrimary c)) \<circ> table_GetSchema)
        (GetTableWithName ''db'' ''t'' catalog_with_table)
      = Some [(''a'', True), (''b'', False), (''c'', True)]"
    by code_simp
  have c3: "fst (CreatePrimaryIndex ''db'' ''t'' catalog_with_table) = SUCCESS"
    using CreatePrimaryIndex_builds_key [OF db tb] by (rule conjunct1)
  have c4: "map_option
        ((\<lambda>i. (index_GetName i, index_key_attrs i, map column_name (index_key_schema i),
                index_unique_keys i, index_GetIndexType i, index_GetConstraintType i))
         \<circ> last \<circ> table_indexes)
        (GetTableWithName ''db'' ''t'' (snd (CreatePrimaryIndex ''db'' ''t'' catalog_with_table)))
      = Some (''T_PKEY'', [0, 2], [''a'', ''c''], True, BWTREE, PRIMARY_KEY)"
    by (simp add: conjunct2 [OF CreatePrimaryIndex_builds_key [OF db tb]] attrs n0 n2 up)
  show ?thesis
    using c1 c2 c3 c4 by (intro conjI)
qed

text \<open>
  The number of ordinals that the loops of \<^verbatim>\<open>CreateIndex\<close> resolve, for a table whose
  column names are pairwise distinct: one for each requested name that is a column name.
\<close>

lemma match_columns_length:
  "distinct (map column_name cols) \<Longrightarrow>
   length (match_columns attr cols i acc)
     = length acc + (if attr \<in> set (map column_name cols) then 1 else 0)"
  by (induction cols arbitrary: i acc) auto

lemma resolve_attrs_length:
  "distinct (map column_name cols) \<Longrightarrow>
   length (resolve_attrs attrs cols acc)
     = length acc + length (filter (\<lambda>a. a \<in> set (map column_name cols)) attrs)"
  by (induction attrs arbitrary: acc) (simp_all add: match_columns_length)

lemma missing_name_shortens:
  "\<not> set attrs \<subseteq> S \<Longrightarrow> length (filter (\<lambda>a. a \<in> S) attrs) < length attrs"
  by (auto intro: length_filter_less)

text \<open>
  Claim C4, as stated: whenever a requested column name is not among the table's
  columns, \<^verbatim>\<open>CreateIndex\<close> returns FAILURE and attaches no index. It is false for a
  table with two columns named \<^verbatim>\<open>x\<close>: the request \<^verbatim>\<open>["x", "nonexistent"]\<close> resolves
  \<^verbatim>\<open>x\<close> twice, the counts agree, and the call succeeds and attaches an index on the
  ordinals 0 and 1.
\<close>

theorem CreateIndex_repeated_name_counterexample:
  "''nonexistent'' \<notin> set (map column_name schema_with_repeated_name)
   \<and> map_option table_GetSchema (GetTableWithName ''db'' ''r'' catalog_with_repeated_name) = Some schema_with_repeated_name
   \<and> (case CreateIndex ''db'' ''r'' [''x'', ''nonexistent''] ''r_idx'' False BWTREE catalog_with_repeated_name of
        (result, s) \<Rightarrow> result = SUCCESS
           \<and> map (map (\<lambda>i. (index_GetName i, index_key_attrs i)) \<circ> table_indexes) (live_tables s)
               = [[(''R_PKEY'', [0]), (''r_idx'', [0, 1])]])"
  by code_simp

text \<open>
  Claim C4, amended: for a table whose column names are pairwise distinct, a call of
  \<^verbatim>\<open>CreateIndex\<close> in which at least one requested name is not a column of the table
  returns FAILURE and leaves the catalog, and so the table's indexes, as they were.
\<close>

theorem CreateIndex_missing_column_fails:
  assumes tb: "GetTableWithOid (GetDatabaseOid database_name (pg_database s))
                 (GetTableOid table_name (pg_table s)) s = Some table"
      and dist: "distinct (map column_name (table_GetSchema table))"
      and miss: "\<not> set index_attr \<subseteq> set (map column_name (table_GetSchema table))"
  shows "CreateIndex database_name table_name index_attr index_name unique_keys index_type s
           = (FAILURE, s)"
proof -
  have "length (resolve_attrs index_attr (table_GetSchema table) []) \<noteq> length index_attr"
    using missing_name_shortens [OF miss] by (simp add: resolve_attrs_length [OF dist])
  then show ?thesis
    using tb
    by (auto simp: CreateIndex_def GetTableWithOid_def Let_def split: option.splits)
qed

text \<open>Witness for C4: the request \<^verbatim>\<open>["b", "nonexistent"]\<close> on the table \<^verbatim>\<open>t\<close>.\<close>

theorem CreateIndex_missing_column_fails_witness:
  "map_option (map column_name \<circ> table_GetSchema) (GetTableWithName ''db'' ''t'' catalog_with_table) = Some [''a'', ''b'', ''c'']
   \<and> CreateIndex ''db'' ''t'' [''b'', ''nonexistent''] ''t_idx'' False BWTREE catalog_with_table = (FAILURE, catalog_with_table)"
proof -
  let ?T = "the (GetTableWithName ''db'' ''t'' catalog_with_table)"
  have tb: "GetTableWithOid (GetDatabaseOid ''db'' (pg_database catalog_with_table))
                 (GetTableOid ''t'' (pg_table catalog_with_table)) catalog_with_table = Some ?T"
    by code_simp
  have dist: "distinct (map column_name (table_GetSchema ?T))"
    by code_simp
  have miss: "\<not> set [''b'', ''nonexistent''] \<subseteq> set (map column_name (table_GetSchema ?T))"
    by code_simp
  have c1: "map_option (map column_name \<circ> table_GetSchema) (GetTableWithName ''db'' ''t'' catalog_with_table) = Some [''a'', ''b'', ''c'']"
    by code_simp
  show ?thesis
    using c1 CreateIndex_missing_column_fails [OF tb dist miss] by (intro conjI)
qed

text \<open>
  Claim C5: a successful \<^verbatim>\<open>CreateIndex\<close> builds the index with the requested
  uniqueness, and with constraint kind DEFAULT for a non-unique and UNIQUE for a unique
  request. The constraint kind is as claimed; the uniqueness flag is not: both branches
  of the source pass the literal \<^verbatim>\<open>true\<close>. Asked for a non-unique index on \<^verbatim>\<open>b\<close>,
  the call succeeds, the live index is flagged unique, and the index-catalog tuple of the
  same call records it as not unique.
\<close>

theorem create_index_ignores_unique_argument:
  "(case CreateIndex ''db'' ''t'' [''b''] ''t_b_idx'' False BWTREE catalog_with_table of
      (result, s) \<Rightarrow>
        result = SUCCESS
        \<and> map (\<lambda>i. (index_GetName i, index_unique_keys i, index_GetConstraintType i))
             (concat (map table_indexes (live_tables s)))
           = [(''T_PKEY'', True, PRIMARY_KEY), (''t_b_idx'', True, DEFAULT)]
        \<and> map (\<lambda>t. (it_name t, it_unique t)) (pg_index s) = [(''t_b_idx'', False)])"
  by code_simp

text \<open>
  The same for every successful call: the attached index is flagged unique whatever was
  asked, its constraint kind follows the argument, and the tuple records the argument.
\<close>

lemma CreateIndex_flags:
  assumes ok: "fst (CreateIndex database_name table_name index_attr index_name unique_keys index_type s) = SUCCESS"
  shows "\<exists>table idx.
           GetTableWithOid (GetDatabaseOid database_name (pg_database s))
               (GetTableOid table_name (pg_table s)) s = Some table
           \<and> GetTableWithOid (GetDatabaseOid database_name (pg_database s))
               (GetTableOid table_name (pg_table s))
               (snd (CreateIndex database_name table_name index_attr index_name unique_keys index_type s))
             = Some (table\<lparr>table_indexes := table_indexes table @ [idx]\<rparr>)
           \<and> index_GetName idx = index_name
           \<and> index_unique_keys idx = True
           \<and> index_GetConstraintType idx = (if unique_keys then UNIQUE else DEFAULT)
           \<and> map it_unique (pg_index (snd (CreateIndex database_name table_name index_attr index_name unique_keys index_type s)))
             = map it_unique (pg_index s) @ [unique_keys]"
proof -
  let ?d = "GetDatabaseOid database_name (pg_database s)"
  let ?t = "GetTableOid table_name (pg_table s)"
  from ok obtain database table where
    db: "GetDatabaseWithOid ?d s = Some database" and
    tb: "Database_GetTableWithOid ?t database = Some table" and
    len: "length (resolve_attrs index_attr (table_GetSchema table) []) = length index_attr" and
    v1: "?d \<noteq> INVALID_OID" and v2: "?t \<noteq> INVALID_OID"
    by (auto simp: CreateIndex_def Let_def split: if_splits option.splits)
  define idx where "idx =
     \<lparr>index_GetName = index_name, index_GetOid = next_oid s,
      index_GetTableOid = table_GetOid table, index_GetDatabaseOid = database_GetOid database,
      index_GetIndexType = index_type,
      index_GetConstraintType = (if unique_keys then UNIQUE else DEFAULT),
      index_tuple_schema = table_GetSchema table,
      index_key_schema = CopySchema (table_GetSchema table) (resolve_attrs index_attr (table_GetSchema table) []),
      index_key_attrs = resolve_attrs index_attr (table_GetSchema table) [],
      index_unique_keys = True\<rparr>"
  let ?f = "update_table_with_oid ?t (DataTable_AddIndex idx)"
  have run: "CreateIndex database_name table_name index_attr index_name unique_keys index_type s
      = (SUCCESS, (update_database ?d ?f (s\<lparr>next_oid := next_oid s + 1\<rparr>))
                    \<lparr>pg_index := IndexCatalog_Insert (next_oid s) index_name ?t ?d unique_keys (pg_index s)\<rparr>)"
    using db tb len v1 v2
    by (cases unique_keys) (simp_all add: CreateIndex_def Let_def GetNextOid_def idx_def update_database_def)
  have keep: "\<And>d. database_GetOid (?f d) = database_GetOid d"
    by (simp add: update_table_with_oid_def)
  have look: "GetDatabaseWithOid ?d (update_database ?d ?f (s\<lparr>next_oid := next_oid s + 1\<rparr>)) = Some (?f database)"
    using db by (simp add: GetDatabaseWithOid_update_database [OF keep])
  have tab: "Database_GetTableWithOid ?t (?f database) = Some (DataTable_AddIndex idx table)"
    using tb by (simp add: Database_GetTableWithOid_def update_table_with_oid_def find_map_first DataTable_AddIndex_def)
  have a: "GetTableWithOid ?d ?t s = Some table"
    using db tb by (simp add: GetTableWithOid_def)
  have look': "GetDatabaseWithOid ?d ((update_database ?d ?f (s\<lparr>next_oid := next_oid s + 1\<rparr>))
                    \<lparr>pg_index := IndexCatalog_Insert (next_oid s) index_name ?t ?d unique_keys (pg_index s)\<rparr>)
               = Some (?f database)"
    using look by (simp add: GetDatabaseWithOid_def)
  have b: "GetTableWithOid ?d ?t (snd (CreateIndex database_name table_name index_attr index_name unique_keys index_type s))
             = Some (table\<lparr>table_indexes := table_indexes table @ [idx]\<rparr>)"
    by (simp add: run GetTableWithOid_def look' tab DataTable_AddIndex_def)
  have c: "map it_unique (pg_index (snd (CreateIndex database_name table_name index_attr index_name unique_keys index_type s)))
             = map it_unique (pg_index s) @ [unique_keys]"
    by (simp add: run IndexCatalog_Insert_def)
  show ?thesis
    using a b c by (intro exI [of _ table] exI [of _ idx]) (simp add: idx_def)
qed

text \<open>
  Claim C6: \<^verbatim>\<open>DropIndex\<close> returns FAILURE when the database, the table or the index
  cannot be resolved, and removes the index and its tuple and returns SUCCESS when all
  three resolve. The null test of the source is inverted. With database 1, table 2 and
  index 4 all present (and the index-catalog tuple of index 4 naming table 2) the call
  returns FAILURE and changes nothing; with an unknown database and the same index it
  goes on to call a member function through the null database pointer.
\<close>

theorem drop_index_null_test_inverted:
  "GetDatabaseWithOid 1 catalog_with_index \<noteq> None
   \<and> GetTableidByOid 4 (pg_index catalog_with_index) = 2
   \<and> map (map index_GetOid \<circ> table_indexes) (live_tables catalog_with_index) = [[3, 4]]
   \<and> DropIndex 1 4 catalog_with_index = Inr (FAILURE, catalog_with_index)
   \<and> GetDatabaseWithOid 9 catalog_with_index = None
   \<and> DropIndex 9 4 catalog_with_index = Inl NullDereference"
  by code_simp

text \<open>No call of \<^verbatim>\<open>DropIndex\<close> returns SUCCESS.\<close>

lemma DropIndex_never_succeeds:
  "DropIndex database_oid index_oid s \<noteq> Inr (SUCCESS, s')"
  by (auto simp: DropIndex_def Let_def split: option.splits)

text \<open>
  Claim C7: \<^verbatim>\<open>CreateTable\<close> on an existing database without a table of that name
  inserts the table-catalog tuple and one column-catalog tuple per column, and returns
  the result of the primary-key index creation if some column is primary, else SUCCESS.
  For a schema without a primary column the tuples are inserted, but the source returns
  the variable \<^verbatim>\<open>result\<close> that only the primary-key branch gives a value: no SUCCESS
  is returned.
\<close>

theorem create_table_without_primary_key_returns_no_result:
  "GetDatabaseWithName ''db'' catalog_with_db \<noteq> None
   \<and> GetTableWithName ''db'' ''u'' catalog_with_db = None
   \<and> (case CreateTable ''db'' ''u'' [example_column ''x'' 0 [], example_column ''y'' 1 []]
              catalog_with_db of
         (result, s) \<Rightarrow>
           result = None \<and> result \<noteq> Some SUCCESS
           \<and> map tt_name (pg_table s) = [''u'']
           \<and> map ct_name (pg_attribute s) = [''x'', ''y''])"
  by code_simp

text \<open>
  What \<^verbatim>\<open>CreateTable\<close> does on every such input: the tuples are appended, and the
  result is SUCCESS (that of the primary-key index creation) with a primary column and
  undetermined without.
\<close>

lemma InsertColumns_eq:
  "InsertColumns table_oid cols has_pk rows
     = (has_pk \<or> (\<exists>c \<in> set cols. IsPrimary c),
        rows @ map (\<lambda>c. \<lparr>ct_table_oid = table_oid, ct_name = column_name c,
                         ct_offset = column_offset c, ct_type = column_type c,
                         ct_inlined = is_inlined c, ct_constraints = column_constraints c\<rparr>) cols)"
  by (induction cols arbitrary: has_pk rows) (auto simp: InsertColumn_def)

lemma pg_table_CreatePrimaryIndex:
  "pg_table (snd (CreatePrimaryIndex dn tn s)) = pg_table s"
  "pg_attribute (snd (CreatePrimaryIndex dn tn s)) = pg_attribute s"
  by (auto simp: CreatePrimaryIndex_def GetNextOid_def Let_def update_database_def split: option.splits)

lemma CreateTable_registers:
  assumes db: "GetDatabaseWithName database_name s = Some database"
      and tb: "Database_GetTableWithName table_name database = None"
  shows "fst (CreateTable database_name table_name schema s)
           = (if \<exists>c \<in> set schema. IsPrimary c then Some SUCCESS else None)
         \<and> pg_table (snd (CreateTable database_name table_name schema s))
           = pg_table s @ [\<lparr>tt_oid = next_oid s, tt_name = table_name,
                             tt_database_oid = database_GetOid database,
                             tt_database_name = database_name\<rparr>]
         \<and> pg_attribute (snd (CreateTable database_name table_name schema s))
           = pg_attribute s @
               map (\<lambda>c. \<lparr>ct_table_oid = next_oid s, ct_name = column_name c,
                         ct_offset = column_offset c, ct_type = column_type c,
                         ct_inlined = is_inlined c, ct_constraints = column_constraints c\<rparr>) schema"
proof -
  let ?table = "\<lparr>table_GetOid = next_oid s, table_GetName = table_name,
                  table_GetDatabaseOid = database_GetOid database, table_GetSchema = schema,
                  table_indexes = []\<rparr>"
  let ?rows = "pg_attribute s @
               map (\<lambda>c. \<lparr>ct_table_oid = next_oid s, ct_name = column_name c,
                         ct_offset = column_offset c, ct_type = column_type c,
                         ct_inlined = is_inlined c, ct_constraints = column_constraints c\<rparr>) schema"
  let ?s4 = "(update_database (database_GetOid database) (Database_AddTable ?table)
                (s\<lparr>next_oid := next_oid s + 1\<rparr>))
              \<lparr>pg_table := InsertTable (next_oid s) table_name (database_GetOid database) database_name (pg_table s),
               pg_attribute := ?rows\<rparr>"
  have oid: "database_GetOid database = GetDatabaseOid database_name (pg_database s)"
    using db by (rule GetDatabaseWithName_oid)
  have db': "GetDatabaseWithOid (database_GetOid database) s = Some database"
    using db by (simp add: GetDatabaseWithName_def oid)
  have run: "CreateTable database_name table_name schema s
           = (if \<exists>c \<in> set schema. IsPrimary c
              then (Some (fst (CreatePrimaryIndex database_name table_name ?s4)),
                    snd (CreatePrimaryIndex database_name table_name ?s4))
              else (None, ?s4))"
    using db tb
    by (simp add: CreateTable_def GetNextOid_def Let_def InsertColumns_eq update_database_def
        split: prod.splits)
  have look: "GetDatabaseWithName database_name ?s4 = Some (Database_AddTable ?table database)"
    using db'
    by (simp add: GetDatabaseWithName_def GetDatabaseWithOid_def update_database_def oid [symmetric]
        find_map_first Database_AddTable_def)
  have tab: "Database_GetTableWithName table_name (Database_AddTable ?table database) = Some ?table"
    using tb by (simp add: Database_GetTableWithName_def Database_AddTable_def find_append_case)
  have ok: "fst (CreatePrimaryIndex database_name table_name ?s4) = SUCCESS"
    by (simp add: CreatePrimaryIndex_state [OF look tab])
  show ?thesis
  proof (cases "\<exists>c \<in> set schema. IsPrimary c")
    case True
    then have "CreateTable database_name table_name schema s
                 = (Some SUCCESS, snd (CreatePrimaryIndex database_name table_name ?s4))"
      by (simp add: run ok)
    then show ?thesis
      using True by (simp add: pg_table_CreatePrimaryIndex InsertTable_def update_database_def)
  next
    case False
    then have "CreateTable database_name table_name schema s = (None, ?s4)"
      by (simp add: run)
    then show ?thesis
      using False by (simp add: InsertTable_def update_database_def)
  qed
qed

text \<open>A name that resolves has a tuple, and the lookup answers from the first one.\<close>

lemma GetDatabaseOid_found:
  "GetDatabaseOid name rows \<noteq> INVALID_OID \<Longrightarrow>
   \<exists>t. find (\<lambda>t. dt_name t = name) rows = Some t \<and> dt_oid t = GetDatabaseOid name rows"
  by (auto simp: GetDatabaseOid_def split: option.splits)

text \<open>
  Claim C8: for a name that the database catalog resolves, \<^verbatim>\<open>DropDatabaseWithName\<close>
  returns SUCCESS and deletes the database-catalog tuples of the resolved oid, nothing
  else: the live databases and the other catalog tables are unchanged, so
  \<^verbatim>\<open>GetDatabaseWithOid\<close> answers for the oid as before; \<^verbatim>\<open>GetDatabaseWithName\<close> no
  longer finds the database of that oid, and finds nothing when no other tuple bears the
  name and no live database carries the sentinel oid.
\<close>

theorem DropDatabaseWithName_only_tuple:
  assumes res: "GetDatabaseOid database_name (pg_database s) = oid" and valid: "oid \<noteq> INVALID_OID"
  shows "DropDatabaseWithName database_name s
           = (SUCCESS, s\<lparr>pg_database := filter (\<lambda>t. dt_oid t \<noteq> oid) (pg_database s)\<rparr>)
         \<and> databases (snd (DropDatabaseWithName database_name s)) = databases s
         \<and> pg_table (snd (DropDatabaseWithName database_name s)) = pg_table s
         \<and> pg_attribute (snd (DropDatabaseWithName database_name s)) = pg_attribute s
         \<and> pg_index (snd (DropDatabaseWithName database_name s)) = pg_index s
         \<and> GetDatabaseWithOid oid (snd (DropDatabaseWithName database_name s)) = GetDatabaseWithOid oid s
         \<and> (\<forall>d. GetDatabaseWithName database_name (snd (DropDatabaseWithName database_name s)) = Some d
                \<longrightarrow> database_GetOid d \<noteq> oid)
         \<and> ((\<forall>t \<in> set (pg_database s). dt_name t = database_name \<longrightarrow> dt_oid t = oid)
              \<and> GetDatabaseWithOid INVALID_OID s = None
              \<longrightarrow> GetDatabaseWithName database_name (snd (DropDatabaseWithName database_name s)) = None)"
proof -
  obtain t where t: "find (\<lambda>t. dt_name t = database_name) (pg_database s) = Some t" "dt_oid t = oid"
    using GetDatabaseOid_found [of database_name "pg_database s"] res valid by auto
  then have "t \<in> set (pg_database s)"
    by (auto simp: find_Some_iff)
  then have found: "find (\<lambda>t. dt_oid t = oid) (pg_database s) \<noteq> None"
    using t(2) by (auto simp: find_None_iff)
  have run: "DropDatabaseWithName database_name s
           = (SUCCESS, s\<lparr>pg_database := filter (\<lambda>t. dt_oid t \<noteq> oid) (pg_database s)\<rparr>)"
    using res valid found by (simp add: DropDatabaseWithName_def DeleteDatabase_def Let_def)
  let ?rows = "filter (\<lambda>t. dt_oid t \<noteq> oid) (pg_database s)"
  have other: "GetDatabaseOid database_name ?rows \<noteq> oid"
    using valid by (auto simp: GetDatabaseOid_def split: option.splits dest: find_Some_mem)
  have notfound: "\<And>d. GetDatabaseWithName database_name (s\<lparr>pg_database := ?rows\<rparr>) = Some d
                \<Longrightarrow> database_GetOid d \<noteq> oid"
    using other by (auto simp: GetDatabaseWithName_def GetDatabaseWithOid_def dest: find_Some_holds)
  have gone: "(\<forall>t \<in> set (pg_database s). dt_name t = database_name \<longrightarrow> dt_oid t = oid)
              \<Longrightarrow> GetDatabaseWithOid INVALID_OID s = None
              \<Longrightarrow> GetDatabaseWithName database_name (s\<lparr>pg_database := ?rows\<rparr>) = None"
  proof -
    assume a: "\<forall>t \<in> set (pg_database s). dt_name t = database_name \<longrightarrow> dt_oid t = oid"
       and b: "GetDatabaseWithOid INVALID_OID s = None"
    have "find (\<lambda>t. dt_name t = database_name) ?rows = None"
      using a by (auto simp: find_filter_None)
    then have "GetDatabaseOid database_name ?rows = INVALID_OID"
      by (simp add: GetDatabaseOid_def)
    then show ?thesis
      using b by (simp add: GetDatabaseWithName_def GetDatabaseWithOid_def)
  qed
  show ?thesis
    using notfound gone by (simp add: run GetDatabaseWithOid_def)
qed

text \<open>Witness for C8: dropping \<^verbatim>\<open>db\<close> by name from the running example.\<close>

theorem DropDatabaseWithName_only_tuple_witness:
  "GetDatabaseOid ''db'' (pg_database catalog_with_table) = 1
   \<and> (1 :: oid_t) \<noteq> INVALID_OID
   \<and> fst (DropDatabaseWithName ''db'' catalog_with_table) = SUCCESS
   \<and> pg_database (snd (DropDatabaseWithName ''db'' catalog_with_table)) = []
   \<and> databases (snd (DropDatabaseWithName ''db'' catalog_with_table)) = databases catalog_with_table
   \<and> map_option database_GetDBName
        (GetDatabaseWithOid 1 (snd (DropDatabaseWithName ''db'' catalog_with_table))) = Some ''db''
   \<and> GetDatabaseWithName ''db'' (snd (DropDatabaseWithName ''db'' catalog_with_table)) = None"
proof -
  have h1: "GetDatabaseOid ''db'' (pg_database catalog_with_table) = 1"
    by code_simp
  have h2: "(1 :: oid_t) \<noteq> INVALID_OID"
    by code_simp
  have h3: "\<forall>t \<in> set (pg_database catalog_with_table). dt_name t = ''db'' \<longrightarrow> dt_oid t = 1"
    by code_simp
  have h4: "GetDatabaseWithOid INVALID_OID catalog_with_table = None"
    by code_simp
  have e1: "filter (\<lambda>t. dt_oid t \<noteq> 1) (pg_database catalog_with_table) = []"
    by code_simp
  have e2: "map_option database_GetDBName (GetDatabaseWithOid 1 catalog_with_table) = Some ''db''"
    by code_simp
  note t = DropDatabaseWithName_only_tuple [OF h1 h2]
  have run: "DropDatabaseWithName ''db'' catalog_with_table
               = (SUCCESS, catalog_with_table\<lparr>pg_database :=
                    filter (\<lambda>t. dt_oid t \<noteq> 1) (pg_database catalog_with_table)\<rparr>)"
    using t by (rule conjunct1)
  have c3: "fst (DropDatabaseWithName ''db'' catalog_with_table) = SUCCESS"
    by (simp add: run)
  have c4: "pg_database (snd (DropDatabaseWithName ''db'' catalog_with_table)) = []"
    by (simp add: run e1)
  have c5: "databases (snd (DropDatabaseWithName ''db'' catalog_with_table)) = databases catalog_with_table"
    by (simp add: run)
  have "GetDatabaseWithOid 1 (snd (DropDatabaseWithName ''db'' catalog_with_table))
          = GetDatabaseWithOid 1 catalog_with_table"
    using t by blast
  then have c6: "map_option database_GetDBName
        (GetDatabaseWithOid 1 (snd (DropDatabaseWithName ''db'' catalog_with_table))) = Some ''db''"
    by (simp add: e2)
  have c7: "GetDatabaseWithName ''db'' (snd (DropDatabaseWithName ''db'' catalog_with_table)) = None"
    using t h3 h4 by blast
  show ?thesis
    using h1 h2 c3 c4 c5 c6 c7 by (intro conjI)
qed

text \<open>
  Claim C10, as stated: after \<^verbatim>\<open>AddDatabase\<close> of a database with a nonempty name,
  \<^verbatim>\<open>GetDatabaseWithName\<close> of that name returns null. It is false when the name is
  already in the database catalog: after \<^verbatim>\<open>CreateDatabase("db")\<close> (oid 1), adding a
  database object named \<^verbatim>\<open>db\<close> with oid 7 leaves the name resolving to the database
  with oid 1. (The tag is 2^24 here; any tag gives the same.)
\<close>

theorem AddDatabase_taken_name_counterexample:
  "database_GetDBName second_db \<noteq> []
   \<and> map_option database_GetOid
        (GetDatabaseWithName (database_GetDBName second_db) (AddDatabase 16777216 second_db catalog_with_db))
      = Some 1"
  by code_simp

text \<open>ORing a tag into an oid changes it unless every bit of the tag was set.\<close>

lemma or_tag_differs: "(x :: oid_t) AND t \<noteq> t \<Longrightarrow> x OR t \<noteq> x"
proof
  assume a: "x AND t \<noteq> t" and b: "x OR t = x"
  have "(x OR t) AND t = t"
    by (simp add: bit_eq_iff bit_and_iff bit_or_iff)
  with a b show False by simp
qed

text \<open>
  Claim C10, amended: \<^verbatim>\<open>AddDatabase\<close> appends the database object and inserts a tuple
  with the empty name and the oid ORed with the tag; that oid differs from the object's
  oid whenever not all bits of the tag were set in it; and for a database with a nonempty
  name that resolved to no live database before the call and that the catalog does not
  map to the object's own oid, \<^verbatim>\<open>GetDatabaseWithName\<close> of the name returns null
  afterwards.
\<close>

theorem AddDatabase_registers_unnamed_tuple:
  "databases (AddDatabase tag database s) = databases s @ [database]
   \<and> pg_database (AddDatabase tag database s)
       = pg_database s @ [\<lparr>dt_oid = database_GetOid database OR tag, dt_name = []\<rparr>]
   \<and> (database_GetOid database AND tag \<noteq> tag
        \<longrightarrow> dt_oid (last (pg_database (AddDatabase tag database s))) \<noteq> database_GetOid database)
   \<and> (database_GetDBName database \<noteq> []
        \<and> GetDatabaseWithName (database_GetDBName database) s = None
        \<and> GetDatabaseOid (database_GetDBName database) (pg_database s) \<noteq> database_GetOid database
        \<longrightarrow> GetDatabaseWithName (database_GetDBName database) (AddDatabase tag database s) = None)"
proof -
  have rows: "pg_database (AddDatabase tag database s)
       = pg_database s @ [\<lparr>dt_oid = database_GetOid database OR tag, dt_name = []\<rparr>]"
    by (simp add: AddDatabase_def InsertDatabase_def Let_def)
  have dbs: "databases (AddDatabase tag database s) = databases s @ [database]"
    by (simp add: AddDatabase_def Let_def)
  have same: "name \<noteq> [] \<Longrightarrow>
      GetDatabaseOid name (pg_database (AddDatabase tag database s)) = GetDatabaseOid name (pg_database s)" for name
    by (auto simp: rows GetDatabaseOid_def find_append_case split: option.splits)
  have null: "name \<noteq> [] \<Longrightarrow> GetDatabaseWithName name s = None
      \<Longrightarrow> GetDatabaseOid name (pg_database s) \<noteq> database_GetOid database
      \<Longrightarrow> GetDatabaseWithName name (AddDatabase tag database s) = None" for name
    by (auto simp: GetDatabaseWithName_def GetDatabaseWithOid_def same dbs find_append_case
        split: option.splits)
  show ?thesis
    using null [of "database_GetDBName database"] or_tag_differs [of "database_GetOid database" tag]
    by (simp add: rows dbs)
qed

text \<open>Witness for C10: a database named \<^verbatim>\<open>test\<close> with oid 7 and the tag 2^24.\<close>

theorem AddDatabase_registers_unnamed_tuple_witness:
  "database_GetDBName test_db \<noteq> []
   \<and> GetDatabaseWithName (database_GetDBName test_db) catalog_with_db = None
   \<and> GetDatabaseOid (database_GetDBName test_db) (pg_database catalog_with_db) \<noteq> database_GetOid test_db
   \<and> database_GetOid test_db AND 16777216 \<noteq> 16777216
   \<and> GetDatabaseWithName (database_GetDBName test_db) (AddDatabase 16777216 test_db catalog_with_db) = None
   \<and> map (\<lambda>t. (dt_oid t, dt_name t)) (pg_database (AddDatabase 16777216 test_db catalog_with_db))
       = [(1, ''db''), (16777223, [])]
   \<and> dt_oid (last (pg_database (AddDatabase 16777216 test_db catalog_with_db))) \<noteq> database_GetOid test_db"
proof -
  have h1: "database_GetDBName test_db \<noteq> []" by code_simp
  have h2: "GetDatabaseWithName (database_GetDBName test_db) catalog_with_db = None" by code_simp
  have h3: "GetDatabaseOid (database_GetDBName test_db) (pg_database catalog_with_db) \<noteq> database_GetOid test_db"
    by code_simp
  have h4: "database_GetOid test_db AND 16777216 \<noteq> 16777216" by code_simp
  have h5: "map (\<lambda>t. (dt_oid t, dt_name t)) (pg_database (AddDatabase 16777216 test_db catalog_with_db))
       = [(1, ''db''), (16777223, [])]" by code_simp
  note t = AddDatabase_registers_unnamed_tuple [of 16777216 test_db catalog_with_db]
  have c5: "GetDatabaseWithName (database_GetDBName test_db) (AddDatabase 16777216 test_db catalog_with_db) = None"
    using t h1 h2 h3 by blast
  have c7: "dt_oid (last (pg_database (AddDatabase 16777216 test_db catalog_with_db))) \<noteq> database_GetOid test_db"
    using t h4 by blast
  show ?thesis using h1 h2 h3 h4 c5 h5 c7 by (intro conjI)
qed

section \<open>The materialization executor: claims\<close>

text \<open>
  The plan's map read in the order of the new column does not depend on the order of its
  entries, and the materialization of the wrapped pair of base tiles under it.
\<close>

lemma three_elements: "length xs = 3 \<Longrightarrow> \<exists>a b c. xs = [a, b, c]"
  by (auto simp: length_Suc_conv numeral_3_eq_3)

lemma by_new_column_of_map:
  assumes set: "set p = {(3, 0), (1, 1), (0, 2 :: nat)}" and dist: "distinct p"
  shows "by_new_column p = [(3 :: nat, 0), (1, 1), (0, 2)]"
proof -
  let ?q = "sort_key snd p"
  have s: "set ?q = {(3, 0), (1, 1), (0, 2)}" using set by simp
  have d: "distinct ?q" using dist by simp
  have "card (set ?q) = 3" unfolding s by simp
  then have len: "length ?q = 3" using d by (simp add: distinct_card)
  have so: "sorted (map snd ?q)" by simp
  from three_elements [OF len] obtain a b c where q: "?q = [a, b, c]"
    by blast
  have "a \<in> {(3, 0), (1, 1), (0, 2)}" "b \<in> {(3, 0), (1, 1), (0, 2)}" "c \<in> {(3, 0), (1, 1), (0, 2)}"
    using s unfolding q by auto
  moreover have "a \<noteq> b" "a \<noteq> c" "b \<noteq> c" using d unfolding q by auto
  moreover have "snd a \<le> snd b" "snd b \<le> snd c" using so unfolding q by auto
  ultimately have "a = (3, 0) \<and> b = (1, 1) \<and> c = (0, 2)"
    by auto
  then show ?thesis by (simp add: by_new_column_def q)
qed

lemma Materialize_reorder:
  assumes plan: "by_new_column (node_old_to_new_cols node) = [(3, 0), (1, 1), (0, 2)]"
      and sch: "length (node_schema node) = 3"
      and s0: "length (tile_schema t0) = 2" and s1: "length (tile_schema t1) = 2"
      and rows: "length (tile_rows t1) = length (tile_rows t0)"
      and w0: "\<forall>r \<in> set (tile_rows t0). length r = 2"
      and w1: "\<forall>r \<in> set (tile_rows t1). length r = 2"
  shows "Materialize [t0, t1] node source_tile
           = Some (\<lparr>lt_columns = [(2, 0), (2, 1), (2, 2)], lt_visible_rows = None\<rparr>,
                   [t0, t1, reordered_tile (node_schema node) t0 t1])"
proof -
  let ?n = "length (tile_rows t0)"
  have refs: "referenced_base_tiles (node_old_to_new_cols node) source_tile = [1, 0]"
    by (simp add: referenced_base_tiles_def plan source_tile_def)
  have g1: "group_of (node_old_to_new_cols node) source_tile (Suc 0) = [(3, 0)]"
    by (simp add: group_of_def plan source_tile_def)
  have g0: "group_of (node_old_to_new_cols node) source_tile 0 = [(1, 1), (0, 2)]"
    by (simp add: group_of_def plan source_tile_def)
  have vr0: "visible_rows [t0, t1] source_tile 0 = [0 ..< ?n]"
    by (simp add: visible_rows_def source_tile_def)
  have vr1: "visible_rows [t0, t1] source_tile (Suc 0) = [0 ..< ?n]"
    by (simp add: visible_rows_def source_tile_def rows)
  have nv: "num_visible_rows [t0, t1] (node_old_to_new_cols node) source_tile = ?n"
    by (simp add: num_visible_rows_def refs vr1)
  have v0: "row < ?n \<Longrightarrow> col < 2 \<Longrightarrow> Tile_GetValue t0 row col \<noteq> None" for row col
    using w0 by (simp add: Tile_GetValue_def)
  have v1: "row < ?n \<Longrightarrow> col < 2 \<Longrightarrow> Tile_GetValue t1 row col \<noteq> None" for row col
    using w1 rows by (simp add: Tile_GetValue_def)
  have three: "[0 ..< 3] = [0, 1, 2 :: nat]"
    by code_simp
  have cols: "lt_columns source_tile = [(0, 0), (0, 1), (1, 0), (1, 1)]"
    by (simp add: source_tile_def)
  have wf: "well_formed_input [t0, t1] node source_tile"
    using v0 v1
    by (simp add: well_formed_input_def plan sch three nv vr0 vr1 NumCols_def cols s0 s1
        list_all_iff)
  have copied: "concat (map (\<lambda>base. copy_group [t0, t1] source_tile base
                                 (group_of (node_old_to_new_cols node) source_tile base)) [1, 0])
      = [(0, map (\<lambda>row. tile_rows t1 ! row ! 1) [0 ..< ?n]),
         (1, map (\<lambda>row. tile_rows t0 ! row ! 1) [0 ..< ?n]),
         (2, map (\<lambda>row. tile_rows t0 ! row ! 0) [0 ..< ?n])]"
    by (simp add: copy_group_def g0 g1 vr0 vr1 cols)
  show ?thesis
    unfolding Materialize_def Let_def refs copied nv
    by (simp add: wf reordered_tile_def three)
qed

text \<open>
  Claim C2 (reorder and drop): for an input logical tile over two base tiles that
  contribute the columns [c0, c1] and [c2, c3], with 9 rows, and the plan map 3 to 0, 1 to
  1, 0 to 2 (column 2 dropped), \<^verbatim>\<open>GetNextTile\<close> returns a logical tile with exactly 3
  columns, all backed by one newly produced physical tile (the one tile appended to the
  store), and for every row \<open>i\<close> output column 0 holds the value of source column 3,
  output column 1 that of source column 1 and output column 2 that of source column 0.
  It holds for any contents of the two tiles and any order of the map's entries.
\<close>

theorem reorder_and_drop_one_tile:
  assumes st: "ex_state ex = READY \<or> ex_state ex = PRODUCING"
      and src: "fst (Child_GetNextTile (ex_child ex)) = Some source_tile"
      and store: "ex_store ex = [t0, t1]"
      and plan: "set (node_old_to_new_cols (ex_node ex)) = {(3, 0), (1, 1), (0, 2)}"
      and keys: "distinct (map fst (node_old_to_new_cols (ex_node ex)))"
      and sch: "length (node_schema (ex_node ex)) = 3"
      and s0: "length (tile_schema t0) = 2" and s1: "length (tile_schema t1) = 2"
      and r0: "length (tile_rows t0) = 9" and r1: "length (tile_rows t1) = 9"
      and w0: "\<forall>r \<in> set (tile_rows t0). length r = 2"
      and w1: "\<forall>r \<in> set (tile_rows t1). length r = 2"
  shows "\<exists>result ex' tile.
           GetNextTile ex = Inr (Some result, ex')
           \<and> NumCols result = 3
           \<and> ex_store ex' = ex_store ex @ [tile]
           \<and> GetBaseTile result 0 = Some (length (ex_store ex))
           \<and> GetBaseTile result 1 = Some (length (ex_store ex))
           \<and> GetBaseTile result 2 = Some (length (ex_store ex))
           \<and> (\<forall>i < 9.
                 LogicalTile_GetValue (ex_store ex') result 0 i
                   = LogicalTile_GetValue (ex_store ex) source_tile 3 i
                 \<and> LogicalTile_GetValue (ex_store ex') result 1 i
                   = LogicalTile_GetValue (ex_store ex) source_tile 1 i
                 \<and> LogicalTile_GetValue (ex_store ex') result 2 i
                   = LogicalTile_GetValue (ex_store ex) source_tile 0 i
                 \<and> LogicalTile_GetValue (ex_store ex') result 0 i = Some (tile_rows t1 ! i ! 1)
                 \<and> LogicalTile_GetValue (ex_store ex') result 1 i = Some (tile_rows t0 ! i ! 1)
                 \<and> LogicalTile_GetValue (ex_store ex') result 2 i = Some (tile_rows t0 ! i ! 0))"
proof -
  let ?result = "\<lparr>lt_columns = [(2, 0), (2, 1), (2, 2)], lt_visible_rows = None\<rparr>"
  let ?tile = "reordered_tile (node_schema (ex_node ex)) t0 t1"
  let ?ex' = "ex\<lparr>ex_state := PRODUCING, ex_child := snd (Child_GetNextTile (ex_child ex)),
                  ex_store := [t0, t1, ?tile]\<rparr>"
  have sorted: "by_new_column (node_old_to_new_cols (ex_node ex)) = [(3, 0), (1, 1), (0, 2)]"
    using plan keys by (intro by_new_column_of_map) (simp_all add: distinct_map)
  have mat: "Materialize [t0, t1] (ex_node ex) source_tile = Some (?result, [t0, t1, ?tile])"
    using sorted sch s0 s1 w0 w1 by (intro Materialize_reorder) (simp_all add: r0 r1)
  have run: "GetNextTile ex = Inr (Some ?result, ?ex')"
    using st src by (auto simp: GetNextTile_def store mat case_prod_beta)
  have src_vals: "i < 9 \<Longrightarrow>
        LogicalTile_GetValue [t0, t1] source_tile 3 i = Some (tile_rows t1 ! i ! 1)
      \<and> LogicalTile_GetValue [t0, t1] source_tile 1 i = Some (tile_rows t0 ! i ! 1)
      \<and> LogicalTile_GetValue [t0, t1] source_tile 0 i = Some (tile_rows t0 ! i ! 0)" for i
    using w0 w1
    by (simp add: LogicalTile_GetValue_def NumCols_def source_tile_def visible_rows_def
        Tile_GetValue_def r0 r1)
  have new_vals: "i < 9 \<Longrightarrow>
        LogicalTile_GetValue [t0, t1, ?tile] ?result 0 i = Some (tile_rows t1 ! i ! 1)
      \<and> LogicalTile_GetValue [t0, t1, ?tile] ?result 1 i = Some (tile_rows t0 ! i ! 1)
      \<and> LogicalTile_GetValue [t0, t1, ?tile] ?result 2 i = Some (tile_rows t0 ! i ! 0)" for i
    by (simp add: LogicalTile_GetValue_def NumCols_def visible_rows_def Tile_GetValue_def
        reordered_tile_def r0)
  show ?thesis
    apply (rule exI [of _ ?result], rule exI [of _ ?ex'], rule exI [of _ ?tile])
    using src_vals new_vals
    by (simp add: run store NumCols_def GetBaseTile_def)
qed

text \<open>
  Witness for C2: the executor of the test \<^verbatim>\<open>TwoBaseTilesWithReorderTest\<close> after its
  initialization; row 4 of the produced tile reads "43", 41, 40.
\<close>

theorem reorder_and_drop_one_tile_witness:
  "\<exists>result ex' tile.
     GetNextTile (snd (Init reorder_test)) = Inr (Some result, ex')
     \<and> NumCols result = 3
     \<and> ex_store ex' = ex_store (snd (Init reorder_test)) @ [tile]
     \<and> GetBaseTile result 0 = Some 2
     \<and> GetBaseTile result 1 = Some 2
     \<and> GetBaseTile result 2 = Some 2
     \<and> LogicalTile_GetValue (ex_store ex') result 0 4 = Some (StringValue ''43'')
     \<and> LogicalTile_GetValue (ex_store ex') result 1 4 = Some (IntegerValue 41)
     \<and> LogicalTile_GetValue (ex_store ex') result 2 4 = Some (IntegerValue 40)"
proof -
  let ?E = "snd (Init reorder_test)"
  let ?t0 = "PopulateTiles 9 ! 0"
  let ?t1 = "PopulateTiles 9 ! 1"
  have st: "ex_state ?E = READY \<or> ex_state ?E = PRODUCING"
    by code_simp
  have src: "fst (Child_GetNextTile (ex_child ?E)) = Some source_tile"
    by code_simp
  have store: "ex_store ?E = [?t0, ?t1]"
    by code_simp
  have plan: "set (node_old_to_new_cols (ex_node ?E)) = {(3, 0), (1, 1), (0, 2)}"
    by code_simp
  have keys: "distinct (map fst (node_old_to_new_cols (ex_node ?E)))"
    by code_simp
  have sch: "length (node_schema (ex_node ?E)) = 3"
    by code_simp
  have s0: "length (tile_schema ?t0) = 2" and s1: "length (tile_schema ?t1) = 2"
    by code_simp+
  have r0: "length (tile_rows ?t0) = 9" and r1: "length (tile_rows ?t1) = 9"
    by code_simp+
  have w0: "\<forall>r \<in> set (tile_rows ?t0). length r = 2"
    by code_simp
  have w1: "\<forall>r \<in> set (tile_rows ?t1). length r = 2"
    by code_simp
  have len: "length (ex_store ?E) = 2"
    by code_simp
  have v3: "tile_rows ?t1 ! 4 ! 1 = StringValue ''43''"
    by code_simp
  have v1: "tile_rows ?t0 ! 4 ! 1 = IntegerValue 41"
    by code_simp
  have v0: "tile_rows ?t0 ! 4 ! 0 = IntegerValue 40"
    by code_simp
  from reorder_and_drop_one_tile [OF st src store plan keys sch s0 s1 r0 r1 w0 w1]
  obtain result ex' tile where
    run: "GetNextTile ?E = Inr (Some result, ex')" and
    n: "NumCols result = 3" and
    new: "ex_store ex' = ex_store ?E @ [tile]" and
    b: "GetBaseTile result 0 = Some (length (ex_store ?E))"
       "GetBaseTile result 1 = Some (length (ex_store ?E))"
       "GetBaseTile result 2 = Some (length (ex_store ?E))" and
    vals: "\<forall>i < 9.
             LogicalTile_GetValue (ex_store ex') result 0 i = Some (tile_rows ?t1 ! i ! 1)
             \<and> LogicalTile_GetValue (ex_store ex') result 1 i = Some (tile_rows ?t0 ! i ! 1)
             \<and> LogicalTile_GetValue (ex_store ex') result 2 i = Some (tile_rows ?t0 ! i ! 0)"
    by blast
  have four: "LogicalTile_GetValue (ex_store ex') result 0 4 = Some (StringValue ''43'')"
       "LogicalTile_GetValue (ex_store ex') result 1 4 = Some (IntegerValue 41)"
       "LogicalTile_GetValue (ex_store ex') result 2 4 = Some (IntegerValue 40)"
    using vals v3 v1 v0 by simp_all
  show ?thesis
    using run n new b four unfolding len by blast
qed

text \<open>
  The expectations of the test itself, evaluated: three columns over one tile that is not
  a source tile, and row \<open>i\<close> of it reads the text of \<open>10 i + 3\<close>, then
  \<open>10 i + 1\<close>, then \<open>10 i\<close>; the next call returns no tile.
\<close>

lemma reorder_test_expectations:
  "(case GetNextTile (snd (Init reorder_test)) of
      Inr (Some result, ex) \<Rightarrow>
        NumCols result = 3
        \<and> GetBaseTile result 0 = Some 2
        \<and> GetBaseTile result 1 = GetBaseTile result 0
        \<and> GetBaseTile result 2 = GetBaseTile result 0
        \<and> length (ex_store ex) = 3
        \<and> list_all
             (\<lambda>i. Tile_GetValue (ex_store ex ! 2) i 2 = Some (IntegerValue (10 * int i))
                 \<and> Tile_GetValue (ex_store ex ! 2) i 1 = Some (IntegerValue (10 * int i + 1))
                 \<and> Tile_GetValue (ex_store ex ! 2) i 0 = Some (StringValue (to_string (10 * i + 3)))
                 \<and> LogicalTile_GetValue (ex_store ex) result 0 i = Tile_GetValue (ex_store ex ! 2) i 0
                 \<and> LogicalTile_GetValue (ex_store ex) result 1 i = Tile_GetValue (ex_store ex ! 2) i 1
                 \<and> LogicalTile_GetValue (ex_store ex) result 2 i = Tile_GetValue (ex_store ex ! 2) i 2)
             [0 ..< 9]
        \<and> (case GetNextTile ex of Inr (None, ex') \<Rightarrow> True | _ \<Rightarrow> False)
    | _ \<Rightarrow> False)"
  by code_simp

text \<open>
  An exhausted executor answers without consulting its child, and a call that returns
  has pulled at most once.
\<close>

lemma GetNextTile_exhausted: "ex_state ex = EXHAUSTED \<Longrightarrow> GetNextTile ex = Inr (None, ex)"
  by (simp add: GetNextTile_def)

lemma after_calls_exhausted: "ex_state ex = EXHAUSTED \<Longrightarrow> after_calls n ex = ex"
  by (induction n) (simp_all add: GetNextTile_exhausted)

lemma GetNextTile_pulls_at_most_one:
  "GetNextTile e = Inr (tile, e') \<Longrightarrow> child_pulled (ex_child e') \<le> child_pulled (ex_child e) + 1"
  by (auto simp: GetNextTile_def Child_GetNextTile_def Let_def
      split: ExecutorState.splits option.splits if_splits prod.splits)

text \<open>
  Claim C9: once the child reports end-of-stream, \<^verbatim>\<open>GetNextTile\<close> returns no tile on
  that call and on every later call, and no call pulls more than one tile from the child.
  The executor's state holds no tile, so none is buffered.
\<close>

theorem exhaustion_is_idempotent:
  assumes st: "ex_state ex = READY \<or> ex_state ex = PRODUCING"
      and eos: "fst (Child_GetNextTile (ex_child ex)) = None"
      and upd: "ex' = ex\<lparr>ex_state := EXHAUSTED,
                        ex_child := (ex_child ex)\<lparr>child_pulled := child_pulled (ex_child ex) + 1\<rparr>\<rparr>"
  shows "GetNextTile ex = Inr (None, ex')
         \<and> (\<forall>n. GetNextTile (after_calls n ex') = Inr (None, ex'))
         \<and> (\<forall>e tile e'. GetNextTile e = Inr (tile, e')
               \<longrightarrow> child_pulled (ex_child e') \<le> child_pulled (ex_child e) + 1)"
proof -
  have first: "GetNextTile ex = Inr (None, ex')"
    using st eos by (auto simp: GetNextTile_def upd Child_GetNextTile_def Let_def split: prod.splits)
  have fin: "ex_state ex' = EXHAUSTED"
    by (simp add: upd)
  have later: "GetNextTile (after_calls n ex') = Inr (None, ex')" for n
    by (simp add: after_calls_exhausted [OF fin] GetNextTile_exhausted [OF fin])
  show ?thesis
    using first later GetNextTile_pulls_at_most_one by blast
qed

text \<open>
  Witness for C9: the executor of the test. Its first call returns a tile; at the second
  the child reports end-of-stream; the calls after that return no tile and leave the
  number of pulls at 2.
\<close>

theorem exhaustion_is_idempotent_witness:
  "(case GetNextTile (snd (Init reorder_test)) of Inr (Some tile, ex) \<Rightarrow> True | _ \<Rightarrow> False)
   \<and> ex_state after_first_tile = PRODUCING
   \<and> fst (Child_GetNextTile (ex_child after_first_tile)) = None
   \<and> GetNextTile after_first_tile = Inr (None, after_end_of_stream)
   \<and> GetNextTile (after_calls 3 after_end_of_stream) = Inr (None, after_end_of_stream)
   \<and> child_pulled (ex_child after_end_of_stream) = 2"
proof -
  have c1: "(case GetNextTile (snd (Init reorder_test)) of Inr (Some tile, ex) \<Rightarrow> True | _ \<Rightarrow> False)"
    by code_simp
  have c2: "ex_state after_first_tile = PRODUCING"
    by code_simp
  have h1: "ex_state after_first_tile = READY \<or> ex_state after_first_tile = PRODUCING"
    using c2 by simp
  have h2: "fst (Child_GetNextTile (ex_child after_first_tile)) = None"
    by code_simp
  have c6: "child_pulled (ex_child after_end_of_stream) = 2"
    by code_simp
  note t = exhaustion_is_idempotent [OF h1 h2 after_end_of_stream_def]
  have c4: "GetNextTile after_first_tile = Inr (None, after_end_of_stream)"
    using t by (rule conjunct1)
  have c5: "GetNextTile (after_calls 3 after_end_of_stream) = Inr (None, after_end_of_stream)"
    using t by blast
  show ?thesis
    using c1 c2 h2 c4 c5 c6 by (intro conjI)
qed

end
